theory Spec2Isabelle
  imports Main "HOL-Library.AList" "HOL-Library.Char_ord" "HOL-Library.List_Lexorder"
begin

section \<open>Values of the in-memory store\<close>

text \<open>
  The fallback collections of \<^verbatim>\<open>src/backend/database.py\<close> hold plain Python data:
  \<^verbatim>\<open>None\<close>, integers, strings, lists and string-keyed dictionaries. A dictionary keeps
  its insertion order, so it is an association list; a key is looked up with \<open>map_of\<close> and
  stored with \<open>AList.update\<close>, which overwrites in place or appends at the end, as
  \<^verbatim>\<open>d[k] = v\<close> does. A Python dictionary never holds a key twice; \<open>well_formed\<close>
  says so of a value. Strings are read one \<open>char\<close> per character. Booleans and floats are
  not part of the model. The model is by value: that \<^verbatim>\<open>insert_one\<close> stores the caller's
  object and \<^verbatim>\<open>find\<close> returns shallow copies is not represented.
\<close>

datatype pyval =
    PNone
  | PInt int
  | PStr string
  | PList "pyval list"
  | PDict "(string \<times> pyval) list"

text \<open>The values that can be the key of a dictionary or the member of a set.\<close>

datatype pykey = KNone | KInt int | KStr string

datatype error = KeyError | TypeError | AttributeError

type_synonym doc = "(string \<times> pyval) list"

type_synonym storage = "(pykey \<times> doc) list"

fun key_val :: "pykey \<Rightarrow> pyval" where
  "key_val KNone = PNone"
| "key_val (KInt i) = PInt i"
| "key_val (KStr s) = PStr s"

text \<open>\<^verbatim>\<open>hash(x)\<close>: lists and dictionaries are unhashable.\<close>

fun hash_key :: "pyval \<Rightarrow> error + pykey" where
  "hash_key PNone = Inr KNone"
| "hash_key (PInt i) = Inr (KInt i)"
| "hash_key (PStr s) = Inr (KStr s)"
| "hash_key (PList xs) = Inl TypeError"
| "hash_key (PDict d) = Inl TypeError"

text \<open>
  \<^verbatim>\<open>a == b\<close>. Lists are equal elementwise; dictionaries are equal when they have the same
  number of entries and every key of the first is a key of the second with an equal value,
  whatever the order.
\<close>

fun py_eq :: "pyval \<Rightarrow> pyval \<Rightarrow> bool"
  and eq_list :: "pyval list \<Rightarrow> pyval list \<Rightarrow> bool"
  and eq_items :: "(string \<times> pyval) list \<Rightarrow> (string \<times> pyval) list \<Rightarrow> bool" where
  "py_eq PNone PNone = True"
| "py_eq (PInt a) (PInt b) = (a = b)"
| "py_eq (PStr a) (PStr b) = (a = b)"
| "py_eq (PList xs) (PList ys) = eq_list xs ys"
| "py_eq (PDict a) (PDict b) = (length a = length b \<and> eq_items a b)"
| "py_eq _ _ = False"
| "eq_list [] [] = True"
| "eq_list (x # xs) (y # ys) = (py_eq x y \<and> eq_list xs ys)"
| "eq_list _ _ = False"
| "eq_items [] b = True"
| "eq_items ((k, v) # a) b =
     (case map_of b k of None \<Rightarrow> False | Some w \<Rightarrow> py_eq v w \<and> eq_items a b)"

text \<open>
  \<^verbatim>\<open>a < b\<close>: defined between two integers, two strings (by character, a proper prefix
  being smaller) and two lists (the first pair of unequal elements decides); every other
  pair of operands raises \<^verbatim>\<open>TypeError\<close>.
\<close>

fun py_lt :: "pyval \<Rightarrow> pyval \<Rightarrow> error + bool"
  and lt_list :: "pyval list \<Rightarrow> pyval list \<Rightarrow> error + bool" where
  "py_lt (PInt a) (PInt b) = Inr (a < b)"
| "py_lt (PStr a) (PStr b) = Inr (a < b)"
| "py_lt (PList xs) (PList ys) = lt_list xs ys"
| "py_lt _ _ = Inl TypeError"
| "lt_list [] [] = Inr False"
| "lt_list [] (y # ys) = Inr True"
| "lt_list (x # xs) [] = Inr False"
| "lt_list (x # xs) (y # ys) = (if py_eq x y then lt_list xs ys else py_lt x y)"

text \<open>\<^verbatim>\<open>a > b\<close> on these operands is \<^verbatim>\<open>b < a\<close>.\<close>

definition py_gt :: "pyval \<Rightarrow> pyval \<Rightarrow> error + bool" where
  "py_gt a b = py_lt b a"

text \<open>\<^verbatim>\<open>p in s\<close> for two strings: \<open>p\<close> occurs in \<open>s\<close> as a contiguous piece.\<close>

definition substring :: "string \<Rightarrow> string \<Rightarrow> bool" where
  "substring p s = list_ex (\<lambda>i. take (length p) (drop i s) = p) [0 ..< Suc (length s)]"

text \<open>
  \<^verbatim>\<open>x in c\<close>, written \<open>contains c x\<close>: membership in a list by \<^verbatim>\<open>==\<close>, substring test
  on a string (both operands must be strings), key test on a dictionary (the operand is
  hashed first); \<^verbatim>\<open>None\<close> and integers are not containers.
\<close>

fun contains :: "pyval \<Rightarrow> pyval \<Rightarrow> error + bool" where
  "contains (PList xs) x = Inr (list_ex (\<lambda>y. py_eq y x) xs)"
| "contains (PStr s) (PStr p) = Inr (substring p s)"
| "contains (PStr s) x = Inl TypeError"
| "contains (PDict d) x =
     (case hash_key x of
        Inl e \<Rightarrow> Inl e
      | Inr k \<Rightarrow> Inr (case k of KStr n \<Rightarrow> n \<in> set (map fst d) | _ \<Rightarrow> False))"
| "contains c x = Inl TypeError"

text \<open>\<^verbatim>\<open>c[name]\<close> with a string between the brackets.\<close>

fun subscript :: "pyval \<Rightarrow> string \<Rightarrow> error + pyval" where
  "subscript (PDict d) name = (case map_of d name of None \<Rightarrow> Inl KeyError | Some v \<Rightarrow> Inr v)"
| "subscript c name = Inl TypeError"

text \<open>\<^verbatim>\<open>c.get(name, default)\<close>: only a dictionary has the method.\<close>

fun py_get :: "pyval \<Rightarrow> string \<Rightarrow> pyval \<Rightarrow> error + pyval" where
  "py_get (PDict d) name dflt = Inr (case map_of d name of None \<Rightarrow> dflt | Some v \<Rightarrow> v)"
| "py_get c name dflt = Inl AttributeError"

text \<open>
  The elements a \<^verbatim>\<open>for\<close> loop visits: those of a list, the characters of a string, the
  keys of a dictionary.
\<close>

fun py_iter :: "pyval \<Rightarrow> error + pyval list" where
  "py_iter (PList xs) = Inr xs"
| "py_iter (PStr s) = Inr (map (\<lambda>c. PStr [c]) s)"
| "py_iter (PDict d) = Inr (map (\<lambda>kv. PStr (fst kv)) d)"
| "py_iter c = Inl TypeError"

text \<open>No dictionary inside the value holds a key twice.\<close>

fun well_formed :: "pyval \<Rightarrow> bool"
  and well_formed_list :: "pyval list \<Rightarrow> bool"
  and well_formed_items :: "(string \<times> pyval) list \<Rightarrow> bool" where
  "well_formed (PList xs) = well_formed_list xs"
| "well_formed (PDict d) = (distinct (map fst d) \<and> well_formed_items d)"
| "well_formed _ = True"
| "well_formed_list [] = True"
| "well_formed_list (x # xs) = (well_formed x \<and> well_formed_list xs)"
| "well_formed_items [] = True"
| "well_formed_items ((k, v) # d) = (well_formed v \<and> well_formed_items d)"

section \<open>MockCollection\<close>

text \<open>\<^verbatim>\<open>count_documents(query)\<close>: the query is not looked at.\<close>

definition count_documents :: "storage \<Rightarrow> nat" where
  "count_documents s = length s"

text \<open>\<^verbatim>\<open>insert_one(document)\<close>: \<^verbatim>\<open>document["_id"]\<close> raises \<^verbatim>\<open>KeyError\<close> when the field is missing.\<close>

definition insert_one :: "storage \<Rightarrow> doc \<Rightarrow> error + storage" where
  "insert_one s document =
     (case map_of document ''_id'' of
        None \<Rightarrow> Inl KeyError
      | Some v \<Rightarrow>
          (case hash_key v of
             Inl e \<Rightarrow> Inl e
           | Inr doc_id \<Rightarrow> Inr (AList.update doc_id document s)))"

text \<open>\<^verbatim>\<open>not query\<close> for a query that is \<^verbatim>\<open>None\<close> or a dictionary.\<close>

definition falsy :: "doc option \<Rightarrow> bool" where
  "falsy query = (case query of None \<Rightarrow> True | Some q \<Rightarrow> q = [])"

text \<open>\<^verbatim>\<open>query.get("_id")\<close>.\<close>

definition query_id :: "doc \<Rightarrow> pyval" where
  "query_id q = (case map_of q ''_id'' of None \<Rightarrow> PNone | Some v \<Rightarrow> v)"

definition find_one :: "storage \<Rightarrow> doc option \<Rightarrow> error + doc option" where
  "find_one s query =
     (if falsy query then Inr None
      else (case hash_key (query_id (the query)) of
              Inl e \<Rightarrow> Inl e
            | Inr doc_id \<Rightarrow> Inr (map_of s doc_id)))"

text \<open>
  \<^verbatim>\<open>result_doc = dict(doc); result_doc['_id'] = key\<close>
\<close>

definition with_id :: "doc \<Rightarrow> pykey \<Rightarrow> doc" where
  "with_id d key = AList.update ''_id'' (key_val key) d"

text \<open>\<^verbatim>\<open>doc.get("schedule_details", {}).get(name, default)\<close>\<close>

definition schedule_field :: "doc \<Rightarrow> string \<Rightarrow> pyval \<Rightarrow> error + pyval" where
  "schedule_field d name dflt =
     py_get (case map_of d ''schedule_details'' of None \<Rightarrow> PDict [] | Some v \<Rightarrow> v) name dflt"

text \<open>\<^verbatim>\<open>any(day in doc_days for day in target_days)\<close>, over the elements of \<^verbatim>\<open>target_days\<close>.\<close>

fun any_in :: "pyval \<Rightarrow> pyval list \<Rightarrow> error + bool" where
  "any_in doc_days [] = Inr False"
| "any_in doc_days (day # days) =
     (case contains doc_days day of
        Inl e \<Rightarrow> Inl e
      | Inr b \<Rightarrow> if b then Inr True else any_in doc_days days)"

text \<open>
  One round of the loop over \<^verbatim>\<open>query.items()\<close>: \<open>Inr False\<close> is the round that sets
  \<^verbatim>\<open>matches = False\<close> and leaves the loop, \<open>Inr True\<close> the round that goes on.
\<close>

definition check_condition :: "doc \<Rightarrow> string \<Rightarrow> pyval \<Rightarrow> error + bool" where
  "check_condition d condition_key condition =
     (if condition_key = ''schedule_details.days'' then
        (case contains condition (PStr ''$in'') of
           Inl e \<Rightarrow> Inl e
         | Inr has \<Rightarrow>
             if \<not> has then Inr True
             else (case subscript condition ''$in'' of
                     Inl e \<Rightarrow> Inl e
                   | Inr target_days \<Rightarrow>
                       (case schedule_field d ''days'' (PList []) of
                          Inl e \<Rightarrow> Inl e
                        | Inr doc_days \<Rightarrow>
                            (case py_iter target_days of
                               Inl e \<Rightarrow> Inl e
                             | Inr days \<Rightarrow> any_in doc_days days))))
      else if condition_key = ''schedule_details.start_time'' then
        (case contains condition (PStr ''$gte'') of
           Inl e \<Rightarrow> Inl e
         | Inr has \<Rightarrow>
             if \<not> has then Inr True
             else (case schedule_field d ''start_time'' (PStr ''00:00'') of
                     Inl e \<Rightarrow> Inl e
                   | Inr doc_start \<Rightarrow>
                       (case subscript condition ''$gte'' of
                          Inl e \<Rightarrow> Inl e
                        | Inr bound \<Rightarrow>
                            (case py_lt doc_start bound of
                               Inl e \<Rightarrow> Inl e
                             | Inr before \<Rightarrow> Inr (\<not> before)))))
      else if condition_key = ''schedule_details.end_time'' then
        (case contains condition (PStr ''$lte'') of
           Inl e \<Rightarrow> Inl e
         | Inr has \<Rightarrow>
             if \<not> has then Inr True
             else (case schedule_field d ''end_time'' (PStr ''23:59'') of
                     Inl e \<Rightarrow> Inl e
                   | Inr doc_end \<Rightarrow>
                       (case subscript condition ''$lte'' of
                          Inl e \<Rightarrow> Inl e
                        | Inr bound \<Rightarrow>
                            (case py_gt doc_end bound of
                               Inl e \<Rightarrow> Inl e
                             | Inr after \<Rightarrow> Inr (\<not> after)))))
      else Inr True)"

text \<open>The loop over \<^verbatim>\<open>query.items()\<close> for one document; the result is \<^verbatim>\<open>matches\<close>.\<close>

fun matches :: "doc \<Rightarrow> (string \<times> pyval) list \<Rightarrow> error + bool" where
  "matches d [] = Inr True"
| "matches d ((condition_key, condition) # rest) =
     (case check_condition d condition_key condition of
        Inl e \<Rightarrow> Inl e
      | Inr ok \<Rightarrow> if ok then matches d rest else Inr False)"

text \<open>The loop over \<^verbatim>\<open>self.storage.items()\<close> of a query that is not empty.\<close>

fun find_loop :: "storage \<Rightarrow> (string \<times> pyval) list \<Rightarrow> error + doc list" where
  "find_loop [] q = Inr []"
| "find_loop ((key, d) # rest) q =
     (case matches d q of
        Inl e \<Rightarrow> Inl e
      | Inr m \<Rightarrow>
          (case find_loop rest q of
             Inl e \<Rightarrow> Inl e
           | Inr results \<Rightarrow> Inr (if m then with_id d key # results else results)))"

definition find :: "storage \<Rightarrow> doc option \<Rightarrow> error + doc list" where
  "find s query =
     (if falsy query then Inr (map (\<lambda>(key, d). with_id d key) s)
      else find_loop s (the query))"

text \<open>
  \<^verbatim>\<open>days.update(schedule_days)\<close> on the elements of \<^verbatim>\<open>schedule_days\<close>: each one is hashed
  and added unless it is a member already. The set is a list without repetition; its order
  is of no account, since the only reader sorts it.
\<close>

fun set_update :: "pykey list \<Rightarrow> pyval list \<Rightarrow> error + pykey list" where
  "set_update days [] = Inr days"
| "set_update days (x # xs) =
     (case hash_key x of
        Inl e \<Rightarrow> Inl e
      | Inr k \<Rightarrow> set_update (List.insert k days) xs)"

fun str_of :: "pykey \<Rightarrow> string" where
  "str_of (KStr s) = s"
| "str_of k = []"

fun int_of :: "pykey \<Rightarrow> int" where
  "int_of (KInt i) = i"
| "int_of k = 0"

fun is_str :: "pykey \<Rightarrow> bool" where
  "is_str (KStr s) = True"
| "is_str k = False"

fun is_int :: "pykey \<Rightarrow> bool" where
  "is_int (KInt i) = True"
| "is_int k = False"

text \<open>
  \<^verbatim>\<open>sorted(days)\<close> of a set: strings among themselves and integers among themselves are
  ordered; a set of at most one member is never compared; any other set has two members
  that \<^verbatim>\<open><\<close> rejects.
\<close>

definition py_sorted :: "pykey list \<Rightarrow> error + pykey list" where
  "py_sorted days =
     (if list_all is_str days then Inr (map KStr (sort (map str_of days)))
      else if list_all is_int days then Inr (map KInt (sort (map int_of days)))
      else if length days \<le> 1 then Inr days
      else Inl TypeError)"

text \<open>The loop over \<^verbatim>\<open>self.storage.values()\<close> of \<^verbatim>\<open>aggregate\<close>.\<close>

fun aggregate_loop :: "pykey list \<Rightarrow> doc list \<Rightarrow> error + pykey list" where
  "aggregate_loop days [] = Inr days"
| "aggregate_loop days (d # rest) =
     (case schedule_field d ''days'' (PList []) of
        Inl e \<Rightarrow> Inl e
      | Inr schedule_days \<Rightarrow>
          (case py_iter schedule_days of
             Inl e \<Rightarrow> Inl e
           | Inr xs \<Rightarrow>
               (case set_update days xs of
                  Inl e \<Rightarrow> Inl e
                | Inr days' \<Rightarrow> aggregate_loop days' rest)))"

text \<open>\<^verbatim>\<open>aggregate(pipeline)\<close>: the pipeline is not looked at.\<close>

definition aggregate :: "storage \<Rightarrow> error + doc list" where
  "aggregate s =
     (case aggregate_loop [] (map snd s) of
        Inl e \<Rightarrow> Inl e
      | Inr days \<Rightarrow>
          (case py_sorted days of
             Inl e \<Rightarrow> Inl e
           | Inr sorted_days \<Rightarrow> Inr (map (\<lambda>day. [(''_id'', key_val day)]) sorted_days)))"

text \<open>\<^verbatim>\<open>d.update(e)\<close>: the entries of \<open>e\<close> are stored in \<open>d\<close> one after the other.\<close>

definition dict_update :: "doc \<Rightarrow> doc \<Rightarrow> doc" where
  "dict_update d e = fold (\<lambda>(k, v). AList.update k v) e d"

text \<open>
  The \<^verbatim>\<open>$push\<close> loop on one document. Only a list has \<^verbatim>\<open>append\<close>. A raise leaves the
  document as the earlier rounds made it, so the document is returned beside the error.
\<close>

fun push_all :: "doc \<Rightarrow> (string \<times> pyval) list \<Rightarrow> doc \<times> error option" where
  "push_all d [] = (d, None)"
| "push_all d ((field, val) # rest) =
     (let d1 = (if field \<notin> set (map fst d) then AList.update field (PList []) d else d)
      in case map_of d1 field of
           Some (PList xs) \<Rightarrow> push_all (AList.update field (PList (xs @ [val])) d1) rest
         | _ \<Rightarrow> (d1, Some AttributeError))"

text \<open>
  \<^verbatim>\<open>xs.remove(value)\<close> inside \<^verbatim>\<open>try ... except ValueError: pass\<close>: the first element
  equal to the value goes; a list without one stays as it is.
\<close>

fun py_remove :: "pyval \<Rightarrow> pyval list \<Rightarrow> pyval list" where
  "py_remove val [] = []"
| "py_remove val (x # xs) = (if py_eq x val then xs else x # py_remove val xs)"

text \<open>The \<^verbatim>\<open>$pull\<close> loop on one document. Only a list has \<^verbatim>\<open>remove\<close>.\<close>

fun pull_all :: "doc \<Rightarrow> (string \<times> pyval) list \<Rightarrow> doc \<times> error option" where
  "pull_all d [] = (d, None)"
| "pull_all d ((field, val) # rest) =
     (case map_of d field of
        None \<Rightarrow> pull_all d rest
      | Some (PList xs) \<Rightarrow> pull_all (AList.update field (PList (py_remove val xs)) d) rest
      | Some _ \<Rightarrow> (d, Some AttributeError))"

text \<open>The \<^verbatim>\<open>if/elif/elif\<close> of \<^verbatim>\<open>update_one\<close> on the document found.\<close>

definition apply_update :: "doc \<Rightarrow> (string \<times> doc) list \<Rightarrow> doc \<times> error option" where
  "apply_update d update =
     (case map_of update ''$set'' of
        Some pairs \<Rightarrow> (dict_update d pairs, None)
      | None \<Rightarrow>
          (case map_of update ''$push'' of
             Some pairs \<Rightarrow> push_all d pairs
           | None \<Rightarrow>
               (case map_of update ''$pull'' of
                  Some pairs \<Rightarrow> pull_all d pairs
                | None \<Rightarrow> (d, None))))"

text \<open>
  \<^verbatim>\<open>update_one(query, update)\<close>. The update maps operator names to field-value
  dictionaries. The result is the storage after the call, with the \<^verbatim>\<open>modified_count\<close>
  of the object returned or the error raised. Only the document found changes: a list
  object that several documents share, which a push would show in each of them, is not
  represented.
\<close>

definition update_one :: "storage \<Rightarrow> doc \<Rightarrow> (string \<times> doc) list \<Rightarrow> storage \<times> (error + nat)" where
  "update_one s query update =
     (case hash_key (query_id query) of
        Inl e \<Rightarrow> (s, Inl e)
      | Inr doc_id \<Rightarrow>
          (case map_of s doc_id of
             None \<Rightarrow> (s, Inr 0)
           | Some d \<Rightarrow>
               (case apply_update d update of
                  (d', None) \<Rightarrow> (AList.update doc_id d' s, Inr 1)
                | (d', Some e) \<Rightarrow> (AList.update doc_id d' s, Inl e))))"

section \<open>The seed catalog and init_database\<close>

text \<open>The dictionary \<^verbatim>\<open>initial_activities\<close>, in the order of the source.\<close>

definition initial_activities :: "(string \<times> doc) list" where
  "initial_activities =
    [(''Chess Club'',
      [(''description'', PStr ''Learn strategies and compete in chess tournaments''),
       (''schedule'', PStr ''Mondays and Fridays, 3:15 PM - 4:45 PM''),
       (''schedule_details'', PDict
         [(''days'', PList [PStr ''Monday'', PStr ''Friday'']),
          (''start_time'', PStr ''15:15''),
          (''end_time'', PStr ''16:45'')]),
       (''max_participants'', PInt 12),
       (''participants'', PList [PStr ''michael@mergington.edu'', PStr ''daniel@mergington.edu''])]),
     (''Programming Class'',
      [(''description'', PStr ''Learn programming fundamentals and build software projects''),
       (''schedule'', PStr ''Tuesdays and Thursdays, 7:00 AM - 8:00 AM''),
       (''schedule_details'', PDict
         [(''days'', PList [PStr ''Tuesday'', PStr ''Thursday'']),
          (''start_time'', PStr ''07:00''),
          (''end_time'', PStr ''08:00'')]),
       (''max_participants'', PInt 20),
       (''participants'', PList [PStr ''emma@mergington.edu'', PStr ''sophia@mergington.edu''])]),
     (''Morning Fitness'',
      [(''description'', PStr ''Early morning physical training and exercises''),
       (''schedule'', PStr ''Mondays, Wednesdays, Fridays, 6:30 AM - 7:45 AM''),
       (''schedule_details'', PDict
         [(''days'', PList [PStr ''Monday'', PStr ''Wednesday'', PStr ''Friday'']),
          (''start_time'', PStr ''06:30''),
          (''end_time'', PStr ''07:45'')]),
       (''max_participants'', PInt 30),
       (''participants'', PList [PStr ''john@mergington.edu'', PStr ''olivia@mergington.edu''])]),
     (''Soccer Team'',
      [(''description'', PStr ''Join the school soccer team and compete in matches''),
       (''schedule'', PStr ''Tuesdays and Thursdays, 3:30 PM - 5:30 PM''),
       (''schedule_details'', PDict
         [(''days'', PList [PStr ''Tuesday'', PStr ''Thursday'']),
          (''start_time'', PStr ''15:30''),
          (''end_time'', PStr ''17:30'')]),
       (''max_participants'', PInt 22),
       (''participants'', PList [PStr ''liam@mergington.edu'', PStr ''noah@mergington.edu''])]),
     (''Basketball Team'',
      [(''description'', PStr ''Practice and compete in basketball tournaments''),
       (''schedule'', PStr ''Wednesdays and Fridays, 3:15 PM - 5:00 PM''),
       (''schedule_details'', PDict
         [(''days'', PList [PStr ''Wednesday'', PStr ''Friday'']),
          (''start_time'', PStr ''15:15''),
          (''end_time'', PStr ''17:00'')]),
       (''max_participants'', PInt 15),
       (''participants'', PList [PStr ''ava@mergington.edu'', PStr ''mia@mergington.edu''])]),
     (''Art Club'',
      [(''description'', PStr ''Explore various art techniques and create masterpieces''),
       (''schedule'', PStr ''Thursdays, 3:15 PM - 5:00 PM''),
       (''schedule_details'', PDict
         [(''days'', PList [PStr ''Thursday'']),
          (''start_time'', PStr ''15:15''),
          (''end_time'', PStr ''17:00'')]),
       (''max_participants'', PInt 15),
       (''participants'', PList [PStr ''amelia@mergington.edu'', PStr ''harper@mergington.edu''])]),
     (''Drama Club'',
      [(''description'', PStr ''Act, direct, and produce plays and performances''),
       (''schedule'', PStr ''Mondays and Wednesdays, 3:30 PM - 5:30 PM''),
       (''schedule_details'', PDict
         [(''days'', PList [PStr ''Monday'', PStr ''Wednesday'']),
          (''start_time'', PStr ''15:30''),
          (''end_time'', PStr ''17:30'')]),
       (''max_participants'', PInt 20),
       (''participants'', PList [PStr ''ella@mergington.edu'', PStr ''scarlett@mergington.edu''])]),
     (''Math Club'',
      [(''description'', PStr ''Solve challenging problems and prepare for math competitions''),
       (''schedule'', PStr ''Tuesdays, 7:15 AM - 8:00 AM''),
       (''schedule_details'', PDict
         [(''days'', PList [PStr ''Tuesday'']),
          (''start_time'', PStr ''07:15''),
          (''end_time'', PStr ''08:00'')]),
       (''max_participants'', PInt 10),
       (''participants'', PList [PStr ''james@mergington.edu'', PStr ''benjamin@mergington.edu''])]),
     (''Debate Team'',
      [(''description'', PStr ''Develop public speaking and argumentation skills''),
       (''schedule'', PStr ''Fridays, 3:30 PM - 5:30 PM''),
       (''schedule_details'', PDict
         [(''days'', PList [PStr ''Friday'']),
          (''start_time'', PStr ''15:30''),
          (''end_time'', PStr ''17:30'')]),
       (''max_participants'', PInt 12),
       (''participants'', PList [PStr ''charlotte@mergington.edu'', PStr ''amelia@mergington.edu''])]),
     (''Weekend Robotics Workshop'',
      [(''description'', PStr ''Build and program robots in our state-of-the-art workshop''),
       (''schedule'', PStr ''Saturdays, 10:00 AM - 2:00 PM''),
       (''schedule_details'', PDict
         [(''days'', PList [PStr ''Saturday'']),
          (''start_time'', PStr ''10:00''),
          (''end_time'', PStr ''14:00'')]),
       (''max_participants'', PInt 15),
       (''participants'', PList [PStr ''ethan@mergington.edu'', PStr ''oliver@mergington.edu''])]),
     (''Science Olympiad'',
      [(''description'', PStr ''Weekend science competition preparation for regional and state events''),
       (''schedule'', PStr ''Saturdays, 1:00 PM - 4:00 PM''),
       (''schedule_details'', PDict
         [(''days'', PList [PStr ''Saturday'']),
          (''start_time'', PStr ''13:00''),
          (''end_time'', PStr ''16:00'')]),
       (''max_participants'', PInt 18),
       (''participants'', PList [PStr ''isabella@mergington.edu'', PStr ''lucas@mergington.edu''])]),
     (''Sunday Chess Tournament'',
      [(''description'', PStr ''Weekly tournament for serious chess players with rankings''),
       (''schedule'', PStr ''Sundays, 2:00 PM - 5:00 PM''),
       (''schedule_details'', PDict
         [(''days'', PList [PStr ''Sunday'']),
          (''start_time'', PStr ''14:00''),
          (''end_time'', PStr ''17:00'')]),
       (''max_participants'', PInt 16),
       (''participants'', PList [PStr ''william@mergington.edu'', PStr ''jacob@mergington.edu''])]),
     (''Manga Maniacs'',
      [(''description'', PStr ''Explore the fantastic stories of the most interesting characters from Japanese Manga (graphic novels).''),
       (''schedule'', PStr ''Tuesdays, 7:00 PM - 8:30 PM''),
       (''schedule_details'', PDict
         [(''days'', PList [PStr ''Tuesday'']),
          (''start_time'', PStr ''19:00''),
          (''end_time'', PStr ''20:30'')]),
       (''max_participants'', PInt 15),
       (''participants'', PList [])])]"

text \<open>
  The list \<^verbatim>\<open>initial_teachers\<close>. \<^verbatim>\<open>hash_password\<close> calls the Argon2 library, which is
  not part of the repository: \<open>ph\<close> gives, for each of the three plaintexts, the string its
  one call returned when the module was loaded.
\<close>

definition initial_teachers :: "(string \<Rightarrow> string) \<Rightarrow> doc list" where
  "initial_teachers ph =
    [[(''username'', PStr ''mrodriguez''),
      (''display_name'', PStr ''Ms. Rodriguez''),
      (''password'', PStr (ph ''art123'')),
      (''role'', PStr ''teacher'')],
     [(''username'', PStr ''mchen''),
      (''display_name'', PStr ''Mr. Chen''),
      (''password'', PStr (ph ''chess456'')),
      (''role'', PStr ''teacher'')],
     [(''username'', PStr ''principal''),
      (''display_name'', PStr ''Principal Martinez''),
      (''password'', PStr (ph ''admin789'')),
      (''role'', PStr ''admin'')]]"

text \<open>The two module-level collections.\<close>

record database =
  activities_collection :: storage
  teachers_collection :: storage

text \<open>
  \<^verbatim>\<open>for name, details in initial_activities.items():
      activities_collection.insert_one({"_id": name, **details})\<close>
\<close>

fun insert_activities :: "storage \<Rightarrow> (string \<times> doc) list \<Rightarrow> error + storage" where
  "insert_activities s [] = Inr s"
| "insert_activities s ((name, details) # rest) =
     (case insert_one s (dict_update [(''_id'', PStr name)] details) of
        Inl e \<Rightarrow> Inl e
      | Inr s' \<Rightarrow> insert_activities s' rest)"

text \<open>
  \<^verbatim>\<open>for teacher in initial_teachers:
      teachers_collection.insert_one({"_id": teacher["username"], **teacher})\<close>
\<close>

fun insert_teachers :: "storage \<Rightarrow> doc list \<Rightarrow> error + storage" where
  "insert_teachers s [] = Inr s"
| "insert_teachers s (teacher # rest) =
     (case map_of teacher ''username'' of
        None \<Rightarrow> Inl KeyError
      | Some username \<Rightarrow>
          (case insert_one s (dict_update [(''_id'', username)] teacher) of
             Inl e \<Rightarrow> Inl e
           | Inr s' \<Rightarrow> insert_teachers s' rest))"

definition init_database :: "(string \<Rightarrow> string) \<Rightarrow> database \<Rightarrow> error + database" where
  "init_database ph db =
     (case (if count_documents (activities_collection db) = 0
            then insert_activities (activities_collection db) initial_activities
            else Inr (activities_collection db)) of
        Inl e \<Rightarrow> Inl e
      | Inr activities \<Rightarrow>
          (case (if count_documents (teachers_collection db) = 0
                 then insert_teachers (teachers_collection db) (initial_teachers ph)
                 else Inr (teachers_collection db)) of
             Inl e \<Rightarrow> Inl e
           | Inr teachers \<Rightarrow>
               Inr \<lparr>activities_collection = activities, teachers_collection = teachers\<rparr>))"

section \<open>The specification's reading of a document and of a query\<close>

text \<open>
  The documents of the data model: \<^verbatim>\<open>schedule_details\<close>, when a document has it, is a
  dictionary whose \<^verbatim>\<open>days\<close>, when present, is a list of strings and whose
  \<^verbatim>\<open>start_time\<close> and \<^verbatim>\<open>end_time\<close>, when present, are strings. A teacher document,
  which has no \<^verbatim>\<open>schedule_details\<close>, is of that shape.
\<close>

fun is_string :: "pyval \<Rightarrow> bool" where
  "is_string (PStr s) = True"
| "is_string v = False"

fun string_or_missing :: "pyval option \<Rightarrow> bool" where
  "string_or_missing None = True"
| "string_or_missing (Some (PStr t)) = True"
| "string_or_missing (Some v) = False"

fun day_list_or_missing :: "pyval option \<Rightarrow> bool" where
  "day_list_or_missing None = True"
| "day_list_or_missing (Some (PList ds)) = list_all is_string ds"
| "day_list_or_missing (Some v) = False"

fun schedule_shaped_details :: "pyval option \<Rightarrow> bool" where
  "schedule_shaped_details None = True"
| "schedule_shaped_details (Some (PDict sd)) =
     (day_list_or_missing (map_of sd ''days'')
      \<and> string_or_missing (map_of sd ''start_time'')
      \<and> string_or_missing (map_of sd ''end_time''))"
| "schedule_shaped_details (Some v) = False"

definition schedule_shaped :: "doc \<Rightarrow> bool" where
  "schedule_shaped d = schedule_shaped_details (map_of d ''schedule_details'')"

definition details_of :: "doc \<Rightarrow> (string \<times> pyval) list" where
  "details_of d = (case map_of d ''schedule_details'' of Some (PDict sd) \<Rightarrow> sd | _ \<Rightarrow> [])"

text \<open>The days sequence of a document, empty when the document has none.\<close>

definition days_of :: "doc \<Rightarrow> pyval list" where
  "days_of d = (case map_of (details_of d) ''days'' of Some (PList ds) \<Rightarrow> ds | _ \<Rightarrow> [])"

text \<open>The start time of a document, \<^verbatim>\<open>00:00\<close> when missing.\<close>

definition start_time_of :: "doc \<Rightarrow> string" where
  "start_time_of d =
     (case map_of (details_of d) ''start_time'' of Some (PStr t) \<Rightarrow> t | _ \<Rightarrow> ''00:00'')"

text \<open>The end time of a document, \<^verbatim>\<open>23:59\<close> when missing.\<close>

definition end_time_of :: "doc \<Rightarrow> string" where
  "end_time_of d =
     (case map_of (details_of d) ''end_time'' of Some (PStr t) \<Rightarrow> t | _ \<Rightarrow> ''23:59'')"

text \<open>The operand a condition gives to an operator, if the condition is a mapping that has it.\<close>

fun operand :: "pyval \<Rightarrow> string \<Rightarrow> pyval option" where
  "operand (PDict m) opr = map_of m opr"
| "operand c opr = None"

text \<open>
  The conditions of the specification: on each of the three recognized paths a mapping
  from operators to operands, where \<^verbatim>\<open>$in\<close> has a list and \<^verbatim>\<open>$gte\<close> and \<^verbatim>\<open>$lte\<close>
  have a string.
\<close>

fun is_mapping :: "pyval \<Rightarrow> bool" where
  "is_mapping (PDict m) = True"
| "is_mapping c = False"

fun list_or_missing :: "pyval option \<Rightarrow> bool" where
  "list_or_missing None = True"
| "list_or_missing (Some (PList ts)) = True"
| "list_or_missing (Some v) = False"

fun condition_shaped :: "string \<times> pyval \<Rightarrow> bool" where
  "condition_shaped (path, c) =
     (if path = ''schedule_details.days''
        then is_mapping c \<and> list_or_missing (operand c ''$in'')
      else if path = ''schedule_details.start_time''
        then is_mapping c \<and> string_or_missing (operand c ''$gte'')
      else if path = ''schedule_details.end_time''
        then is_mapping c \<and> string_or_missing (operand c ''$lte'')
      else True)"

text \<open>
  When a document satisfies a condition, in the specification's words: \<^verbatim>\<open>$in\<close> on the days
  asks for a day in common with the targets, \<^verbatim>\<open>$gte\<close> on the start time for a start not
  before the bound, \<^verbatim>\<open>$lte\<close> on the end time for an end not after the bound; any other
  condition is satisfied by every document.
\<close>

fun condition_holds :: "doc \<Rightarrow> string \<times> pyval \<Rightarrow> bool" where
  "condition_holds d (path, c) =
     (if path = ''schedule_details.days'' then
        (case operand c ''$in'' of
           Some (PList targets) \<Rightarrow> set (days_of d) \<inter> set targets \<noteq> {}
         | _ \<Rightarrow> True)
      else if path = ''schedule_details.start_time'' then
        (case operand c ''$gte'' of
           Some (PStr bound) \<Rightarrow> bound \<le> start_time_of d
         | _ \<Rightarrow> True)
      else if path = ''schedule_details.end_time'' then
        (case operand c ''$lte'' of
           Some (PStr bound) \<Rightarrow> end_time_of d \<le> bound
         | _ \<Rightarrow> True)
      else True)"

text \<open>The documents a query selects, each with its identity merged in, in the order stored.\<close>

definition selected :: "storage \<Rightarrow> (string \<times> pyval) list \<Rightarrow> doc list" where
  "selected s q =
     map (\<lambda>(key, d). with_id d key) (filter (\<lambda>(key, d). list_all (condition_holds d) q) s)"

text \<open>
  An update can be carried out on a document when every field its \<^verbatim>\<open>$push\<close> or
  \<^verbatim>\<open>$pull\<close> names is missing from the document or holds a list there.
\<close>

fun list_or_missing_field :: "doc \<Rightarrow> string \<times> pyval \<Rightarrow> bool" where
  "list_or_missing_field d (field, val) = list_or_missing (map_of d field)"

definition applicable :: "doc \<Rightarrow> (string \<times> doc) list \<Rightarrow> bool" where
  "applicable d update =
     (case map_of update ''$set'' of
        Some pairs \<Rightarrow> True
      | None \<Rightarrow>
          (case map_of update ''$push'' of
             Some pairs \<Rightarrow> list_all (list_or_missing_field d) pairs
           | None \<Rightarrow>
               (case map_of update ''$pull'' of
                  Some pairs \<Rightarrow> list_all (list_or_missing_field d) pairs
                | None \<Rightarrow> True)))"

text \<open>The sequence a field holds, empty when the field is missing.\<close>

fun stored_sequence :: "pyval option \<Rightarrow> pyval list" where
  "stored_sequence None = []"
| "stored_sequence (Some (PList xs)) = xs"
| "stored_sequence (Some v) = []"

text \<open>
  A condition that \<^verbatim>\<open>find\<close> does not recognize: one on a path other than the three, or a
  mapping on one of the three that lacks the operator read on that path.
\<close>

fun unrecognized :: "string \<times> pyval \<Rightarrow> bool" where
  "unrecognized (path, c) =
     (if path = ''schedule_details.days''
        then is_mapping c \<and> operand c ''$in'' = None
      else if path = ''schedule_details.start_time''
        then is_mapping c \<and> operand c ''$gte'' = None
      else if path = ''schedule_details.end_time''
        then is_mapping c \<and> operand c ''$lte'' = None
      else True)"

section \<open>Filtered reads\<close>

lemma py_eq_string: "is_string y \<Longrightarrow> py_eq y t = (y = t)"
  by (cases y; cases t) auto

lemma contains_day_list:
  "list_all is_string ds \<Longrightarrow> contains (PList ds) t = Inr (t \<in> set ds)"
  by (induction ds arbitrary: t) (auto simp: py_eq_string)

lemma any_in_day_list:
  "list_all is_string ds \<Longrightarrow> any_in (PList ds) ts = Inr (set ds \<inter> set ts \<noteq> {})"
  by (induction ts) (auto simp: contains_day_list simp del: contains.simps)

lemma contains_mapping: "contains (PDict m) (PStr opr) = Inr (map_of m opr \<noteq> None)"
  by (simp add: map_of_eq_None_iff)

lemma shaped_days:
  assumes "schedule_shaped d"
  shows "schedule_field d ''days'' (PList []) = Inr (PList (days_of d))"
    and "list_all is_string (days_of d)"
proof -
  show "schedule_field d ''days'' (PList []) = Inr (PList (days_of d))"
  proof (cases "map_of d ''schedule_details''")
    case None
    then show ?thesis by (simp add: schedule_field_def days_of_def details_of_def)
  next
    case (Some v)
    with assms obtain sd where v: "v = PDict sd"
      by (cases v) (simp_all add: schedule_shaped_def)
    with assms Some have "day_list_or_missing (map_of sd ''days'')"
      by (simp add: schedule_shaped_def)
    then show ?thesis using Some v
      by (cases "map_of sd ''days''" rule: day_list_or_missing.cases)
         (simp_all add: schedule_field_def days_of_def details_of_def)
  qed
  show "list_all is_string (days_of d)"
  proof (cases "map_of d ''schedule_details''")
    case None
    then show ?thesis by (simp add: days_of_def details_of_def)
  next
    case (Some v)
    with assms obtain sd where v: "v = PDict sd"
      by (cases v) (simp_all add: schedule_shaped_def)
    with assms Some have "day_list_or_missing (map_of sd ''days'')"
      by (simp add: schedule_shaped_def)
    then show ?thesis using Some v
      by (cases "map_of sd ''days''" rule: day_list_or_missing.cases)
         (simp_all add: days_of_def details_of_def)
  qed
qed

lemma shaped_time:
  assumes "schedule_shaped d"
  shows "schedule_field d ''start_time'' (PStr ''00:00'') = Inr (PStr (start_time_of d))"
    and "schedule_field d ''end_time'' (PStr ''23:59'') = Inr (PStr (end_time_of d))"
proof -
  show "schedule_field d ''start_time'' (PStr ''00:00'') = Inr (PStr (start_time_of d))"
  proof (cases "map_of d ''schedule_details''")
    case None
    then show ?thesis by (simp add: schedule_field_def start_time_of_def details_of_def)
  next
    case (Some v)
    with assms obtain sd where v: "v = PDict sd"
      by (cases v) (simp_all add: schedule_shaped_def)
    with assms Some have "string_or_missing (map_of sd ''start_time'')"
      by (simp add: schedule_shaped_def)
    then show ?thesis using Some v
      by (cases "map_of sd ''start_time''" rule: string_or_missing.cases)
         (simp_all add: schedule_field_def start_time_of_def details_of_def)
  qed
  show "schedule_field d ''end_time'' (PStr ''23:59'') = Inr (PStr (end_time_of d))"
  proof (cases "map_of d ''schedule_details''")
    case None
    then show ?thesis by (simp add: schedule_field_def end_time_of_def details_of_def)
  next
    case (Some v)
    with assms obtain sd where v: "v = PDict sd"
      by (cases v) (simp_all add: schedule_shaped_def)
    with assms Some have "string_or_missing (map_of sd ''end_time'')"
      by (simp add: schedule_shaped_def)
    then show ?thesis using Some v
      by (cases "map_of sd ''end_time''" rule: string_or_missing.cases)
         (simp_all add: schedule_field_def end_time_of_def details_of_def)
  qed
qed

lemma check_condition_holds:
  assumes d: "schedule_shaped d" and c: "condition_shaped (path, c)"
  shows "check_condition d path c = Inr (condition_holds d (path, c))"
proof -
  consider (days) "path = ''schedule_details.days''"
    | (start) "path = ''schedule_details.start_time''"
    | (finish) "path = ''schedule_details.end_time''"
    | (other) "path \<noteq> ''schedule_details.days''" "path \<noteq> ''schedule_details.start_time''"
        "path \<noteq> ''schedule_details.end_time''"
    by blast
  then show ?thesis
  proof cases
    case days
    with c obtain m where m: "c = PDict m" and l: "list_or_missing (map_of m ''$in'')"
      by (cases c) simp_all
    from l show ?thesis
      by (cases "map_of m ''$in''" rule: list_or_missing.cases)
         (simp_all add: days m check_condition_def contains_mapping shaped_days [OF d]
            any_in_day_list del: contains.simps)
  next
    case start
    with c obtain m where m: "c = PDict m" and l: "string_or_missing (map_of m ''$gte'')"
      by (cases c) simp_all
    from l show ?thesis
      by (cases "map_of m ''$gte''" rule: string_or_missing.cases)
         (simp_all add: start m check_condition_def contains_mapping shaped_time [OF d]
            not_less del: contains.simps)
  next
    case finish
    with c obtain m where m: "c = PDict m" and l: "string_or_missing (map_of m ''$lte'')"
      by (cases c) simp_all
    from l show ?thesis
      by (cases "map_of m ''$lte''" rule: string_or_missing.cases)
         (simp_all add: finish m check_condition_def contains_mapping shaped_time [OF d]
            py_gt_def not_less del: contains.simps)
  next
    case other
    then show ?thesis by (simp add: check_condition_def)
  qed
qed

lemma matches_holds:
  "schedule_shaped d \<Longrightarrow> list_all condition_shaped q \<Longrightarrow>
   matches d q = Inr (list_all (condition_holds d) q)"
proof (induction q)
  case Nil
  then show ?case by simp
next
  case (Cons pc q)
  obtain path c where pc: "pc = (path, c)" by (cases pc)
  from Cons.prems have "condition_shaped (path, c)" and "list_all condition_shaped q"
    by (simp_all add: pc)
  with Cons.IH Cons.prems(1) show ?case
    by (simp add: pc check_condition_holds del: condition_holds.simps condition_shaped.simps)
qed

lemma find_loop_selected:
  "list_all (\<lambda>(key, d). schedule_shaped d) s \<Longrightarrow> list_all condition_shaped q \<Longrightarrow>
   find_loop s q = Inr (selected s q)"
proof (induction s)
  case Nil
  then show ?case by (simp add: selected_def)
next
  case (Cons kd s)
  obtain key d where kd: "kd = (key, d)" by (cases kd)
  from Cons.prems have "schedule_shaped d" by (simp add: kd)
  with Cons show ?case
    by (simp add: kd matches_holds selected_def)
qed

text \<open>
  C1. On a collection of documents of the data model and a query whose conditions on the
  three recognized paths are operator mappings, \<^verbatim>\<open>find\<close> returns exactly the documents
  that satisfy every condition of the query, in the order stored and each with its
  identity merged in: \<^verbatim>\<open>$in\<close> on the days holds when the document's days and the
  targets have a day in common, \<^verbatim>\<open>$gte\<close> on the start time when the start (\<^verbatim>\<open>00:00\<close>
  if missing) is not before the bound, \<^verbatim>\<open>$lte\<close> on the end time when the end
  (\<^verbatim>\<open>23:59\<close> if missing) is not after the bound. On the two documents of testable
  property 3, stored under any two identities, the query for Friday and a start from
  \<^verbatim>\<open>12:00\<close> returns the first document and nothing else.
\<close>

theorem find_returns_selected:
  "(list_all (\<lambda>(key, d). schedule_shaped d) s \<and> list_all condition_shaped q
      \<longrightarrow> find s (Some q) = Inr (selected s q))
   \<and> find
       [(k1, [(''schedule_details'', PDict
                [(''days'', PList [PStr ''Monday'', PStr ''Friday'']),
                 (''start_time'', PStr ''15:15''),
                 (''end_time'', PStr ''16:45'')])]),
        (k2, [(''schedule_details'', PDict
                [(''days'', PList [PStr ''Tuesday'']),
                 (''start_time'', PStr ''07:00''),
                 (''end_time'', PStr ''08:00'')])])]
       (Some [(''schedule_details.days'', PDict [(''$in'', PList [PStr ''Friday''])]),
         (''schedule_details.start_time'', PDict [(''$gte'', PStr ''12:00'')])])
     = Inr [[(''schedule_details'', PDict
                [(''days'', PList [PStr ''Monday'', PStr ''Friday'']),
                 (''start_time'', PStr ''15:15''),
                 (''end_time'', PStr ''16:45'')]),
             (''_id'', key_val k1)]]"
proof (intro conjI impI)
  assume shaped: "list_all (\<lambda>(key, d). schedule_shaped d) s \<and> list_all condition_shaped q"
  show "find s (Some q) = Inr (selected s q)"
  proof (cases "q = []")
    case True
    then show ?thesis by (simp add: find_def falsy_def selected_def)
  next
    case False
    with shaped show ?thesis by (simp add: find_def falsy_def find_loop_selected)
  qed
next
  show "find
       [(k1, [(''schedule_details'', PDict
                [(''days'', PList [PStr ''Monday'', PStr ''Friday'']),
                 (''start_time'', PStr ''15:15''),
                 (''end_time'', PStr ''16:45'')])]),
        (k2, [(''schedule_details'', PDict
                [(''days'', PList [PStr ''Tuesday'']),
                 (''start_time'', PStr ''07:00''),
                 (''end_time'', PStr ''08:00'')])])]
       (Some [(''schedule_details.days'', PDict [(''$in'', PList [PStr ''Friday''])]),
         (''schedule_details.start_time'', PDict [(''$gte'', PStr ''12:00'')])])
     = Inr [[(''schedule_details'', PDict
                [(''days'', PList [PStr ''Monday'', PStr ''Friday'']),
                 (''start_time'', PStr ''15:15''),
                 (''end_time'', PStr ''16:45'')]),
             (''_id'', key_val k1)]]"
    by (simp add: find_def falsy_def check_condition_def schedule_field_def with_id_def)
qed

theorem find_returns_selected_witness:
  "list_all (\<lambda>(key, d). schedule_shaped d)
       [(KStr ''first'', [(''schedule_details'', PDict
                [(''days'', PList [PStr ''Monday'', PStr ''Friday'']),
                 (''start_time'', PStr ''15:15''),
                 (''end_time'', PStr ''16:45'')])]),
        (KStr ''second'', [(''schedule_details'', PDict
                [(''days'', PList [PStr ''Tuesday'']),
                 (''start_time'', PStr ''07:00''),
                 (''end_time'', PStr ''08:00'')])])]
   \<and> list_all condition_shaped
        [(''schedule_details.days'', PDict [(''$in'', PList [PStr ''Friday''])]),
         (''schedule_details.start_time'', PDict [(''$gte'', PStr ''12:00'')])]
   \<and> find
       [(KStr ''first'', [(''schedule_details'', PDict
                [(''days'', PList [PStr ''Monday'', PStr ''Friday'']),
                 (''start_time'', PStr ''15:15''),
                 (''end_time'', PStr ''16:45'')])]),
        (KStr ''second'', [(''schedule_details'', PDict
                [(''days'', PList [PStr ''Tuesday'']),
                 (''start_time'', PStr ''07:00''),
                 (''end_time'', PStr ''08:00'')])])]
       (Some [(''schedule_details.days'', PDict [(''$in'', PList [PStr ''Friday''])]),
         (''schedule_details.start_time'', PDict [(''$gte'', PStr ''12:00'')])])
     = Inr (selected
       [(KStr ''first'', [(''schedule_details'', PDict
                [(''days'', PList [PStr ''Monday'', PStr ''Friday'']),
                 (''start_time'', PStr ''15:15''),
                 (''end_time'', PStr ''16:45'')])]),
        (KStr ''second'', [(''schedule_details'', PDict
                [(''days'', PList [PStr ''Tuesday'']),
                 (''start_time'', PStr ''07:00''),
                 (''end_time'', PStr ''08:00'')])])]
       [(''schedule_details.days'', PDict [(''$in'', PList [PStr ''Friday''])]),
         (''schedule_details.start_time'', PDict [(''$gte'', PStr ''12:00'')])])
   \<and> selected
       [(KStr ''first'', [(''schedule_details'', PDict
                [(''days'', PList [PStr ''Monday'', PStr ''Friday'']),
                 (''start_time'', PStr ''15:15''),
                 (''end_time'', PStr ''16:45'')])]),
        (KStr ''second'', [(''schedule_details'', PDict
                [(''days'', PList [PStr ''Tuesday'']),
                 (''start_time'', PStr ''07:00''),
                 (''end_time'', PStr ''08:00'')])])]
       [(''schedule_details.days'', PDict [(''$in'', PList [PStr ''Friday''])]),
         (''schedule_details.start_time'', PDict [(''$gte'', PStr ''12:00'')])]
     = [[(''schedule_details'', PDict
                [(''days'', PList [PStr ''Monday'', PStr ''Friday'']),
                 (''start_time'', PStr ''15:15''),
                 (''end_time'', PStr ''16:45'')]),
             (''_id'', PStr ''first'')]]"
  using find_returns_selected [of
       "[(KStr ''first'', [(''schedule_details'', PDict
                [(''days'', PList [PStr ''Monday'', PStr ''Friday'']),
                 (''start_time'', PStr ''15:15''),
                 (''end_time'', PStr ''16:45'')])]),
        (KStr ''second'', [(''schedule_details'', PDict
                [(''days'', PList [PStr ''Tuesday'']),
                 (''start_time'', PStr ''07:00''),
                 (''end_time'', PStr ''08:00'')])])]"
       "[(''schedule_details.days'', PDict [(''$in'', PList [PStr ''Friday''])]),
         (''schedule_details.start_time'', PDict [(''$gte'', PStr ''12:00'')])]"]
  by (simp add: schedule_shaped_def selected_def with_id_def days_of_def details_of_def
      start_time_of_def)

lemma check_unrecognized: "unrecognized (path, c) \<Longrightarrow> check_condition d path c = Inr True"
  by (cases c) (auto simp: check_condition_def contains_mapping simp del: contains.simps split: if_splits)

lemma matches_unrecognized:
  "unrecognized (path, c) \<Longrightarrow> matches d (q1 @ (path, c) # q2) = matches d (q1 @ q2)"
proof (induction q1)
  case Nil
  then show ?case by (simp add: check_unrecognized)
next
  case (Cons a q1)
  then show ?case by (cases a) (simp del: unrecognized.simps cong: sum.case_cong if_cong)
qed

lemma find_loop_unrecognized:
  "unrecognized (path, c) \<Longrightarrow> find_loop s (q1 @ (path, c) # q2) = find_loop s (q1 @ q2)"
  by (induction s) (auto simp: matches_unrecognized simp del: unrecognized.simps cong: sum.case_cong if_cong)

lemma find_loop_empty_query: "find_loop s [] = Inr (map (\<lambda>(key, d). with_id d key) s)"
  by (induction s) auto

text \<open>
  C4. A condition of a query that \<^verbatim>\<open>find\<close> does not recognize, for its path is none of
  the three or it is a mapping without the operator of its path, is passed over: its
  check raises nothing and lets every document through, and the query returns what it
  returns without that condition.
\<close>

theorem unrecognized_condition_ignored:
  "unrecognized (path, c) \<longrightarrow>
     check_condition d path c = Inr True
     \<and> find s (Some (q1 @ (path, c) # q2)) = find s (Some (q1 @ q2))"
proof (intro impI conjI)
  assume u: "unrecognized (path, c)"
  then show "check_condition d path c = Inr True" by (rule check_unrecognized)
  show "find s (Some (q1 @ (path, c) # q2)) = find s (Some (q1 @ q2))"
  proof (cases "q1 @ q2 = []")
    case True
    then have empty: "q1 = []" "q2 = []" by simp_all
    have "find_loop s ([] @ (path, c) # []) = find_loop s ([] @ [])"
      using u by (rule find_loop_unrecognized)
    then show ?thesis
      by (simp add: empty find_def falsy_def find_loop_empty_query)
  next
    case False
    then show ?thesis
      by (auto simp: find_def falsy_def find_loop_unrecognized [OF u])
  qed
qed


theorem unrecognized_condition_ignored_witness:
  "unrecognized (''schedule_details.days'', PDict [(''$all'', PList [PStr ''Sunday''])])
   \<and> check_condition [(''_id'', PStr ''Chess Club'')] ''schedule_details.days''
         (PDict [(''$all'', PList [PStr ''Sunday''])]) = Inr True
   \<and> find [(KStr ''Chess Club'', [(''_id'', PStr ''Chess Club'')])]
         (Some [(''schedule_details.days'', PDict [(''$all'', PList [PStr ''Sunday''])])])
       = find [(KStr ''Chess Club'', [(''_id'', PStr ''Chess Club'')])] (Some [])"
  using unrecognized_condition_ignored [of "''schedule_details.days''"
      "PDict [(''$all'', PList [PStr ''Sunday''])]" "[(''_id'', PStr ''Chess Club'')]"
      "[(KStr ''Chess Club'', [(''_id'', PStr ''Chess Club'')])]" "[]" "[]"]
  by simp

text \<open>
  C7. With no query or an empty one, \<^verbatim>\<open>find\<close> returns one document for every entry
  of the storage, in the order of the storage: the stored document with \<^verbatim>\<open>_id\<close> set to
  the key it is stored under and every other field as stored. Where each stored document
  carries its key as \<^verbatim>\<open>_id\<close>, as \<^verbatim>\<open>insert_one\<close> stores it, these are the stored
  documents themselves. The order of the storage is the order of insertion, since
  \<^verbatim>\<open>insert_one\<close> puts a document with a new identity at the end.
\<close>

theorem find_without_query:
  "find s None = Inr (map (\<lambda>(key, d). AList.update ''_id'' (key_val key) d) s)
   \<and> find s (Some []) = Inr (map (\<lambda>(key, d). AList.update ''_id'' (key_val key) d) s)
   \<and> map_of (AList.update ''_id'' (key_val key) d) f
       = (if f = ''_id'' then Some (key_val key) else map_of d f)
   \<and> (list_all (\<lambda>(key, d). map_of d ''_id'' = Some (key_val key)) s
        \<longrightarrow> find s None = Inr (map snd s) \<and> find s (Some []) = Inr (map snd s))
   \<and> (doc_id \<notin> set (map fst s) \<and> map_of document ''_id'' = Some (key_val doc_id)
        \<longrightarrow> insert_one s document = Inr (s @ [(doc_id, document)]))"
proof -
  have fresh: "doc_id \<notin> set (map fst s) \<Longrightarrow> AList.update doc_id document s = s @ [(doc_id, document)]"
    by (induction s) auto
  have hashed: "hash_key (key_val doc_id) = Inr doc_id" by (cases doc_id) simp_all
  have stored: "list_all (\<lambda>(key, d). map_of d ''_id'' = Some (key_val key)) s \<Longrightarrow>
      map (\<lambda>(key, d). AList.update ''_id'' (key_val key) d) s = map snd s"
    by (induction s) (auto simp: update_triv)
  have all: "find s None = Inr (map (\<lambda>(key, d). AList.update ''_id'' (key_val key) d) s)"
    "find s (Some []) = Inr (map (\<lambda>(key, d). AList.update ''_id'' (key_val key) d) s)"
    by (simp_all add: find_def falsy_def with_id_def)
  have inserted: "doc_id \<notin> set (map fst s) \<and> map_of document ''_id'' = Some (key_val doc_id)
        \<longrightarrow> insert_one s document = Inr (s @ [(doc_id, document)])"
    using fresh hashed by (simp add: insert_one_def)
  have looked: "map_of (AList.update ''_id'' (key_val key) d) f
       = (if f = ''_id'' then Some (key_val key) else map_of d f)"
    by (simp add: update_conv')
  from all stored looked inserted show ?thesis by simp
qed

theorem find_without_query_witness:
  "KStr ''principal'' \<notin> set (map fst [(KStr ''mchen'', [(''_id'', PStr ''mchen''), (''role'', PStr ''teacher'')])])
   \<and> map_of [(''_id'', PStr ''principal''), (''role'', PStr ''admin'')] ''_id'' = Some (key_val (KStr ''principal''))
   \<and> insert_one [(KStr ''mchen'', [(''_id'', PStr ''mchen''), (''role'', PStr ''teacher'')])]
        [(''_id'', PStr ''principal''), (''role'', PStr ''admin'')]
       = Inr [(KStr ''mchen'', [(''_id'', PStr ''mchen''), (''role'', PStr ''teacher'')]),
        (KStr ''principal'', [(''_id'', PStr ''principal''), (''role'', PStr ''admin'')])]
   \<and> list_all (\<lambda>(key, d). map_of d ''_id'' = Some (key_val key))
        [(KStr ''mchen'', [(''_id'', PStr ''mchen''), (''role'', PStr ''teacher'')]),
        (KStr ''principal'', [(''_id'', PStr ''principal''), (''role'', PStr ''admin'')])]
   \<and> find
        [(KStr ''mchen'', [(''_id'', PStr ''mchen''), (''role'', PStr ''teacher'')]),
        (KStr ''principal'', [(''_id'', PStr ''principal''), (''role'', PStr ''admin'')])] None
       = Inr [[(''_id'', PStr ''mchen''), (''role'', PStr ''teacher'')],
            [(''_id'', PStr ''principal''), (''role'', PStr ''admin'')]]
   \<and> find
        [(KStr ''mchen'', [(''_id'', PStr ''mchen''), (''role'', PStr ''teacher'')]),
        (KStr ''principal'', [(''_id'', PStr ''principal''), (''role'', PStr ''admin'')])] (Some [])
       = Inr [[(''_id'', PStr ''mchen''), (''role'', PStr ''teacher'')],
            [(''_id'', PStr ''principal''), (''role'', PStr ''admin'')]]"
  using find_without_query [where s = "[(KStr ''mchen'', [(''_id'', PStr ''mchen''), (''role'', PStr ''teacher'')])]"
      and doc_id = "KStr ''principal''" and document = "[(''_id'', PStr ''principal''), (''role'', PStr ''admin'')]"]
    find_without_query [where s = "[(KStr ''mchen'', [(''_id'', PStr ''mchen''), (''role'', PStr ''teacher'')]),
        (KStr ''principal'', [(''_id'', PStr ''principal''), (''role'', PStr ''admin'')])]"]
  by simp

section \<open>Updates\<close>

lemma hash_key_val: "hash_key (key_val i) = Inr i"
  by (cases i) simp_all

lemma list_or_missing_field_update:
  "list_or_missing (map_of d f) \<Longrightarrow>
   list_or_missing_field (AList.update f (PList xs) d) = list_or_missing_field d"
  by (rule ext) (auto simp: update_conv' split: if_splits)

lemma push_all_applicable:
  "snd (push_all d pairs) = (if list_all (list_or_missing_field d) pairs then None else Some AttributeError)"
proof (induction pairs arbitrary: d)
  case Nil
  then show ?case by simp
next
  case (Cons fv pairs)
  obtain field val where fv: "fv = (field, val)" by (cases fv)
  show ?case
  proof (cases "list_or_missing (map_of d field)")
    case True
    then consider (missing) "map_of d field = None"
      | (sequence) xs where "map_of d field = Some (PList xs)"
      by (cases "map_of d field" rule: list_or_missing.cases) simp_all
    then show ?thesis
    proof cases
      case missing
      then have notin: "field \<notin> set (map fst d)" by (simp add: map_of_eq_None_iff)
      have "list_all (list_or_missing_field (AList.update field (PList [val]) d)) pairs
          = list_all (list_or_missing_field d) pairs"
        using missing by (simp add: list_or_missing_field_update)
      with missing notin show ?thesis by (simp add: fv Cons.IH update_conv')
    next
      case sequence
      then have isin: "field \<in> set (map fst d)"
        by (metis map_of_eq_None_iff option.distinct(1) set_map)
      have "list_all (list_or_missing_field (AList.update field (PList (xs @ [val])) d)) pairs
          = list_all (list_or_missing_field d) pairs"
        using sequence by (simp add: list_or_missing_field_update)
      with sequence isin show ?thesis by (simp add: fv Cons.IH)
    qed
  next
    case False
    then obtain v where v: "map_of d field = Some v"
      by (cases "map_of d field") simp_all
    then have isin: "field \<in> set (map fst d)"
      by (metis map_of_eq_None_iff option.distinct(1) set_map)
    from False v isin show ?thesis by (cases v) (simp_all add: fv)
  qed
qed

lemma pull_all_applicable:
  "snd (pull_all d pairs) = (if list_all (list_or_missing_field d) pairs then None else Some AttributeError)"
proof (induction pairs arbitrary: d)
  case Nil
  then show ?case by simp
next
  case (Cons fv pairs)
  obtain field val where fv: "fv = (field, val)" by (cases fv)
  show ?case
  proof (cases "map_of d field" rule: list_or_missing.cases)
    case 1
    then show ?thesis by (simp add: fv Cons.IH)
  next
    case (2 xs)
    then have "list_all (list_or_missing_field (AList.update field (PList (py_remove val xs)) d)) pairs
        = list_all (list_or_missing_field d) pairs"
      by (simp add: list_or_missing_field_update)
    with 2 show ?thesis by (simp add: fv Cons.IH)
  qed (simp_all add: fv)
qed

lemma apply_update_applicable:
  "snd (apply_update d update) = (if applicable d update then None else Some AttributeError)"
  by (simp add: apply_update_def applicable_def push_all_applicable pull_all_applicable
      split: option.splits)

lemma update_one_absent:
  "query_id q = key_val i \<Longrightarrow> map_of s i = None \<Longrightarrow> update_one s q u = (s, Inr 0)"
  by (simp add: update_one_def hash_key_val)

lemma update_one_present:
  "query_id q = key_val i \<Longrightarrow> map_of s i = Some d \<Longrightarrow>
   update_one s q u =
     (AList.update i (fst (apply_update d u)) s,
      case snd (apply_update d u) of None \<Rightarrow> Inr 1 | Some e \<Rightarrow> Inl e)"
  by (cases "apply_update d u") (auto simp: update_one_def hash_key_val split: option.splits)

lemma eq_items_subset:
  "well_formed v \<longrightarrow> py_eq v v"
  "well_formed_list xs \<longrightarrow> eq_list xs xs"
  "well_formed_items a \<longrightarrow> (\<forall>b. distinct (map fst b) \<and> set a \<subseteq> set b \<longrightarrow> eq_items a b)"
  by (induction v and xs and a rule: well_formed_well_formed_list_well_formed_items.induct)
     auto

lemma py_eq_refl: "well_formed v \<Longrightarrow> py_eq v v"
  by (simp add: eq_items_subset)

lemma py_remove_appended:
  "\<not> list_ex (\<lambda>x. py_eq x v) ps \<Longrightarrow> py_eq v v \<Longrightarrow> py_remove v (ps @ [v]) = ps"
  by (induction ps) auto

text \<open>
  C3, as the code has it. An \<^verbatim>\<open>update_one\<close> whose identity is not in the collection
  leaves the storage as it is and returns a \<^verbatim>\<open>modified_count\<close> of 0. When the identity
  is in the collection, the call returns a \<^verbatim>\<open>modified_count\<close> of 1 if every field
  named by the \<^verbatim>\<open>$push\<close> or \<^verbatim>\<open>$pull\<close> that is carried out is missing from the
  document or holds a list there; otherwise it raises \<^verbatim>\<open>AttributeError\<close>.
\<close>

theorem update_one_count:
  "query_id q = key_val i \<longrightarrow>
     (map_of s i = None \<longrightarrow> update_one s q u = (s, Inr 0))
     \<and> (map_of s i = Some d \<longrightarrow>
          snd (update_one s q u) = (if applicable d u then Inr 1 else Inl AttributeError))"
  by (simp add: update_one_absent update_one_present apply_update_applicable)

theorem update_one_count_witness:
  "query_id [(''_id'', PStr ''Chess Club'')] = key_val (KStr ''Chess Club'')
   \<and> map_of [(KStr ''Chess Club'',
        [(''_id'', PStr ''Chess Club''),
         (''participants'', PList [PStr ''michael@mergington.edu'', PStr ''daniel@mergington.edu''])])] (KStr ''Math Club'') = None
   \<and> update_one [(KStr ''Chess Club'',
        [(''_id'', PStr ''Chess Club''),
         (''participants'', PList [PStr ''michael@mergington.edu'', PStr ''daniel@mergington.edu''])])] [(''_id'', PStr ''Math Club'')] [(''$set'', [(''x'', PInt 1)])]
     = ([(KStr ''Chess Club'',
        [(''_id'', PStr ''Chess Club''),
         (''participants'', PList [PStr ''michael@mergington.edu'', PStr ''daniel@mergington.edu''])])], Inr 0)
   \<and> map_of
      [(KStr ''Chess Club'',
        [(''_id'', PStr ''Chess Club''),
         (''participants'', PList [PStr ''michael@mergington.edu'', PStr ''daniel@mergington.edu''])])] (KStr ''Chess Club'')
      = Some [(''_id'', PStr ''Chess Club''),
         (''participants'', PList [PStr ''michael@mergington.edu'', PStr ''daniel@mergington.edu''])]
   \<and> applicable [(''_id'', PStr ''Chess Club''),
         (''participants'', PList [PStr ''michael@mergington.edu'', PStr ''daniel@mergington.edu''])] [(''$push'', [(''participants'', PStr ''x@y.edu'')])]
   \<and> snd (update_one
      [(KStr ''Chess Club'',
        [(''_id'', PStr ''Chess Club''),
         (''participants'', PList [PStr ''michael@mergington.edu'', PStr ''daniel@mergington.edu''])])]
      [(''_id'', PStr ''Chess Club'')]
      [(''$push'', [(''participants'', PStr ''x@y.edu'')])]) = Inr 1"
  using update_one_count [of "[(''_id'', PStr ''Chess Club'')]" "KStr ''Chess Club''"
      "[(KStr ''Chess Club'',
        [(''_id'', PStr ''Chess Club''),
         (''participants'', PList [PStr ''michael@mergington.edu'', PStr ''daniel@mergington.edu''])])]" "[(''$push'', [(''participants'', PStr ''x@y.edu'')])]"
      "[(''_id'', PStr ''Chess Club''),
         (''participants'', PList [PStr ''michael@mergington.edu'', PStr ''daniel@mergington.edu''])]"]
    update_one_count [of "[(''_id'', PStr ''Math Club'')]" "KStr ''Math Club''"
      "[(KStr ''Chess Club'',
        [(''_id'', PStr ''Chess Club''),
         (''participants'', PList [PStr ''michael@mergington.edu'', PStr ''daniel@mergington.edu''])])]" "[(''$set'', [(''x'', PInt 1)])]"]
  by (simp add: query_id_def applicable_def)

text \<open>
  C3 as stated fails: the identity is in the collection, and a \<^verbatim>\<open>$push\<close> on the
  \<^verbatim>\<open>description\<close>, a string, raises \<^verbatim>\<open>AttributeError\<close> in place of returning a
  \<^verbatim>\<open>modified_count\<close> of 1.
\<close>

theorem update_one_count_counterexample:
  "map_of [(KStr ''Chess Club'',
            [(''_id'', PStr ''Chess Club''), (''description'', PStr ''Learn strategies'')])]
      (KStr ''Chess Club'')
     = Some [(''_id'', PStr ''Chess Club''), (''description'', PStr ''Learn strategies'')]
   \<and> update_one
      [(KStr ''Chess Club'',
        [(''_id'', PStr ''Chess Club''), (''description'', PStr ''Learn strategies'')])]
      [(''_id'', PStr ''Chess Club'')]
      [(''$push'', [(''description'', PStr ''x@y.edu'')])]
     = ([(KStr ''Chess Club'',
          [(''_id'', PStr ''Chess Club''), (''description'', PStr ''Learn strategies'')])],
        Inl AttributeError)"
  by (simp add: update_one_def query_id_def apply_update_def)

lemma dict_update_lookup: "map_of (dict_update d a) = map_of d ++ map_of (rev a)"
  unfolding dict_update_def
proof (induction a arbitrary: d)
  case Nil
  then show ?case by simp
next
  case (Cons kv a)
  obtain k v where kv: "kv = (k, v)" by (cases kv)
  show ?case
    by (rule ext) (auto simp: kv Cons.IH update_conv' map_add_def split: option.splits)
qed

lemma push_all_lookup:
  "distinct (map fst b) \<Longrightarrow> list_all (list_or_missing_field d) b \<Longrightarrow>
   snd (push_all d b) = None
   \<and> (\<forall>f. map_of (fst (push_all d b)) f =
         (case map_of b f of
            None \<Rightarrow> map_of d f
          | Some v \<Rightarrow> Some (PList (stored_sequence (map_of d f) @ [v]))))"
proof (induction b arbitrary: d)
  case Nil
  then show ?case by simp
next
  case (Cons fv b)
  obtain field val where fv: "fv = (field, val)" by (cases fv)
  from Cons.prems have fresh: "map_of b field = None" and dist: "distinct (map fst b)"
    and here: "list_or_missing (map_of d field)" and rest: "list_all (list_or_missing_field d) b"
    by (simp_all add: fv map_of_eq_None_iff)
  let ?d1 = "AList.update field (PList (stored_sequence (map_of d field) @ [val])) d"
  have step: "push_all d (fv # b) = push_all ?d1 b"
  proof (cases "map_of d field")
    case None
    then have "field \<notin> set (map fst d)" by (simp add: map_of_eq_None_iff)
    with None show ?thesis by (simp add: fv update_conv')
  next
    case (Some x)
    then have isin: "field \<in> set (map fst d)"
      by (metis map_of_eq_None_iff option.distinct(1) set_map)
    from here Some obtain xs where "x = PList xs" by (cases x) simp_all
    with Some isin show ?thesis by (simp add: fv)
  qed
  have "list_all (list_or_missing_field ?d1) b"
    using here rest by (simp add: list_or_missing_field_update)
  from Cons.IH [OF dist this]
  have ih: "snd (push_all ?d1 b) = None"
    "\<And>f. map_of (fst (push_all ?d1 b)) f =
         (case map_of b f of
            None \<Rightarrow> map_of ?d1 f
          | Some v \<Rightarrow> Some (PList (stored_sequence (map_of ?d1 f) @ [v])))"
    by simp_all
  show ?case
  proof (intro conjI allI)
    show "snd (push_all d (fv # b)) = None" by (simp only: step ih)
    fix f
    show "map_of (fst (push_all d (fv # b))) f =
         (case map_of (fv # b) f of
            None \<Rightarrow> map_of d f
          | Some v \<Rightarrow> Some (PList (stored_sequence (map_of d f) @ [v])))"
    proof (cases "f = field")
      case True
      then show ?thesis unfolding step by (simp add: ih fresh fv update_conv')
    next
      case False
      then show ?thesis unfolding step by (simp add: ih fv update_conv' cong: option.case_cong)
    qed
  qed
qed

lemma pull_all_lookup:
  "distinct (map fst c) \<Longrightarrow> list_all (list_or_missing_field d) c \<Longrightarrow>
   snd (pull_all d c) = None
   \<and> map fst (fst (pull_all d c)) = map fst d
   \<and> (\<forall>f. map_of (fst (pull_all d c)) f =
         (case map_of c f of
            None \<Rightarrow> map_of d f
          | Some v \<Rightarrow>
              (case map_of d f of
                 None \<Rightarrow> None
               | Some x \<Rightarrow> Some (PList (py_remove v (stored_sequence (Some x)))))))"
proof (induction c arbitrary: d)
  case Nil
  then show ?case by simp
next
  case (Cons fv c)
  obtain field val where fv: "fv = (field, val)" by (cases fv)
  from Cons.prems have fresh: "map_of c field = None" and dist: "distinct (map fst c)"
    and here: "list_or_missing (map_of d field)" and rest: "list_all (list_or_missing_field d) c"
    by (simp_all add: fv map_of_eq_None_iff)
  show ?case
  proof (cases "map_of d field")
    case None
    then have step: "pull_all d (fv # c) = pull_all d c" by (simp add: fv)
    from Cons.IH [OF dist rest]
    have ih: "snd (pull_all d c) = None" "map fst (fst (pull_all d c)) = map fst d"
      "\<And>f. map_of (fst (pull_all d c)) f =
         (case map_of c f of
            None \<Rightarrow> map_of d f
          | Some v \<Rightarrow>
              (case map_of d f of
                 None \<Rightarrow> None
               | Some x \<Rightarrow> Some (PList (py_remove v (stored_sequence (Some x))))))"
      by simp_all
    show ?thesis
    proof (intro conjI allI)
      show "snd (pull_all d (fv # c)) = None" by (simp only: step ih)
      show "map fst (fst (pull_all d (fv # c))) = map fst d" by (simp only: step ih)
      fix f
      show "map_of (fst (pull_all d (fv # c))) f =
         (case map_of (fv # c) f of
            None \<Rightarrow> map_of d f
          | Some v \<Rightarrow>
              (case map_of d f of
                 None \<Rightarrow> None
               | Some x \<Rightarrow> Some (PList (py_remove v (stored_sequence (Some x))))))"
        using None unfolding step by (cases "f = field") (simp_all add: ih fv fresh)
    qed
  next
    case (Some x)
    then have isin: "field \<in> set (map fst d)"
      by (metis map_of_eq_None_iff option.distinct(1) set_map)
    from here Some obtain xs where x: "x = PList xs" by (cases x) simp_all
    let ?d1 = "AList.update field (PList (py_remove val xs)) d"
    have step: "pull_all d (fv # c) = pull_all ?d1 c" using Some x by (simp add: fv)
    have "list_all (list_or_missing_field ?d1) c"
      using here rest by (simp add: list_or_missing_field_update)
    from Cons.IH [OF dist this]
    have ih: "snd (pull_all ?d1 c) = None" "map fst (fst (pull_all ?d1 c)) = map fst ?d1"
      "\<And>f. map_of (fst (pull_all ?d1 c)) f =
         (case map_of c f of
            None \<Rightarrow> map_of ?d1 f
          | Some v \<Rightarrow>
              (case map_of ?d1 f of
                 None \<Rightarrow> None
               | Some x \<Rightarrow> Some (PList (py_remove v (stored_sequence (Some x))))))"
      by simp_all
    show ?thesis
    proof (intro conjI allI)
      show "snd (pull_all d (fv # c)) = None" by (simp only: step ih)
      show "map fst (fst (pull_all d (fv # c))) = map fst d"
        using isin unfolding step by (simp add: ih update_keys)
      fix f
      show "map_of (fst (pull_all d (fv # c))) f =
         (case map_of (fv # c) f of
            None \<Rightarrow> map_of d f
          | Some v \<Rightarrow>
              (case map_of d f of
                 None \<Rightarrow> None
               | Some x \<Rightarrow> Some (PList (py_remove v (stored_sequence (Some x))))))"
        using Some x unfolding step
        by (cases "f = field") (simp_all add: ih fv fresh update_conv' cong: option.case_cong)
    qed
  qed
qed

lemma py_remove_strings: "list_all is_string xs \<Longrightarrow> py_remove v xs = remove1 v xs"
  by (induction xs) (auto simp: py_eq_string)

text \<open>
  C10. Of the operators \<^verbatim>\<open>$set\<close>, \<^verbatim>\<open>$push\<close> and \<^verbatim>\<open>$pull\<close> in one update,
  \<^verbatim>\<open>update_one\<close> carries out one only: \<^verbatim>\<open>$set\<close> if there, else \<^verbatim>\<open>$push\<close> if there,
  else \<^verbatim>\<open>$pull\<close>; the call does what it does on the update that has that operator
  alone. With none of the three and an identity of the collection, the storage is left
  as it is and the \<^verbatim>\<open>modified_count\<close> returned is 1. What the one operator does to the
  document found, the rest of the storage staying as it is, with a
  \<^verbatim>\<open>modified_count\<close> of 1: \<^verbatim>\<open>$set\<close> stores each of its values under its field;
  \<^verbatim>\<open>$push\<close> puts each value at the end of the sequence of its field, an empty one if
  the field is missing, and leaves the other fields; \<^verbatim>\<open>$pull\<close> takes the first
  occurrence of each value out of the sequence of its field, adds no field and leaves
  the other fields.
\<close>

theorem update_one_priority:
  "(map_of u ''$set'' = Some a \<longrightarrow> update_one s q u = update_one s q [(''$set'', a)])
   \<and> (map_of u ''$set'' = None \<and> map_of u ''$push'' = Some b
        \<longrightarrow> update_one s q u = update_one s q [(''$push'', b)])
   \<and> (map_of u ''$set'' = None \<and> map_of u ''$push'' = None \<and> map_of u ''$pull'' = Some c
        \<longrightarrow> update_one s q u = update_one s q [(''$pull'', c)])
   \<and> (map_of u ''$set'' = None \<and> map_of u ''$push'' = None \<and> map_of u ''$pull'' = None
        \<and> query_id q = key_val i \<and> map_of s i = Some d
        \<longrightarrow> update_one s q u = (s, Inr 1))
   \<and> (query_id q = key_val i \<and> map_of s i = Some d
        \<longrightarrow> update_one s q [(''$set'', a)] = (AList.update i (dict_update d a) s, Inr 1)
            \<and> map_of (dict_update d a) = map_of d ++ map_of (rev a))
   \<and> (query_id q = key_val i \<and> map_of s i = Some d
        \<and> distinct (map fst b) \<and> list_all (list_or_missing_field d) b
        \<longrightarrow> (\<exists>d'. update_one s q [(''$push'', b)] = (AList.update i d' s, Inr 1)
              \<and> (\<forall>f. map_of d' f =
                   (case map_of b f of
                     None \<Rightarrow> map_of d f
                   | Some v \<Rightarrow> Some (PList (stored_sequence (map_of d f) @ [v]))))))
   \<and> (query_id q = key_val i \<and> map_of s i = Some d
        \<and> distinct (map fst c) \<and> list_all (list_or_missing_field d) c
        \<longrightarrow> (\<exists>d'. update_one s q [(''$pull'', c)] = (AList.update i d' s, Inr 1)
              \<and> map fst d' = map fst d
              \<and> (\<forall>f. map_of d' f =
                   (case map_of c f of
                     None \<Rightarrow> map_of d f
                   | Some v \<Rightarrow>
                       (case map_of d f of
                          None \<Rightarrow> None
                        | Some x \<Rightarrow> Some (PList (py_remove v (stored_sequence (Some x)))))))))
   \<and> (list_all is_string xs \<longrightarrow> py_remove v xs = remove1 v xs)"
proof (intro conjI impI)
  assume "map_of u ''$set'' = Some a"
  then have "apply_update d' u = apply_update d' [(''$set'', a)]" for d'
    by (simp add: apply_update_def)
  then show "update_one s q u = update_one s q [(''$set'', a)]"
    by (simp add: update_one_def cong: sum.case_cong option.case_cong)
next
  assume "map_of u ''$set'' = None \<and> map_of u ''$push'' = Some b"
  then have "apply_update d' u = apply_update d' [(''$push'', b)]" for d'
    by (simp add: apply_update_def)
  then show "update_one s q u = update_one s q [(''$push'', b)]"
    by (simp add: update_one_def cong: sum.case_cong option.case_cong)
next
  assume "map_of u ''$set'' = None \<and> map_of u ''$push'' = None \<and> map_of u ''$pull'' = Some c"
  then have "apply_update d' u = apply_update d' [(''$pull'', c)]" for d'
    by (simp add: apply_update_def)
  then show "update_one s q u = update_one s q [(''$pull'', c)]"
    by (simp add: update_one_def cong: sum.case_cong option.case_cong)
next
  assume none: "map_of u ''$set'' = None \<and> map_of u ''$push'' = None \<and> map_of u ''$pull'' = None
        \<and> query_id q = key_val i \<and> map_of s i = Some d"
  then have "apply_update d u = (d, None)"
    by (simp add: apply_update_def)
  moreover from none have "AList.update i d s = s"
    by (simp add: update_triv)
  ultimately show "update_one s q u = (s, Inr 1)"
    using none by (simp add: update_one_def hash_key_val)
next
  assume "query_id q = key_val i \<and> map_of s i = Some d"
  then show "update_one s q [(''$set'', a)] = (AList.update i (dict_update d a) s, Inr 1)"
    by (simp add: update_one_present apply_update_def)
next
  show "map_of (dict_update d a) = map_of d ++ map_of (rev a)"
    by (rule dict_update_lookup)
next
  assume a: "query_id q = key_val i \<and> map_of s i = Some d
        \<and> distinct (map fst b) \<and> list_all (list_or_missing_field d) b"
  then have "snd (push_all d b) = None
     \<and> (\<forall>f. map_of (fst (push_all d b)) f =
                   (case map_of b f of
                     None \<Rightarrow> map_of d f
                   | Some v \<Rightarrow> Some (PList (stored_sequence (map_of d f) @ [v]))))"
    by (simp add: push_all_lookup)
  moreover from a have "update_one s q [(''$push'', b)]
      = (AList.update i (fst (push_all d b)) s,
         case snd (push_all d b) of None \<Rightarrow> Inr 1 | Some e \<Rightarrow> Inl e)"
    by (simp add: update_one_present apply_update_def)
  ultimately show "\<exists>d'. update_one s q [(''$push'', b)] = (AList.update i d' s, Inr 1)
              \<and> (\<forall>f. map_of d' f =
                   (case map_of b f of
                     None \<Rightarrow> map_of d f
                   | Some v \<Rightarrow> Some (PList (stored_sequence (map_of d f) @ [v]))))"
    by (intro exI [where x = "fst (push_all d b)"]) simp
next
  assume a: "query_id q = key_val i \<and> map_of s i = Some d
        \<and> distinct (map fst c) \<and> list_all (list_or_missing_field d) c"
  then have "snd (pull_all d c) = None
     \<and> map fst (fst (pull_all d c)) = map fst d
     \<and> (\<forall>f. map_of (fst (pull_all d c)) f =
                   (case map_of c f of
                     None \<Rightarrow> map_of d f
                   | Some v \<Rightarrow>
                       (case map_of d f of
                          None \<Rightarrow> None
                        | Some x \<Rightarrow> Some (PList (py_remove v (stored_sequence (Some x)))))))"
    by (simp add: pull_all_lookup)
  moreover from a have "update_one s q [(''$pull'', c)]
      = (AList.update i (fst (pull_all d c)) s,
         case snd (pull_all d c) of None \<Rightarrow> Inr 1 | Some e \<Rightarrow> Inl e)"
    by (simp add: update_one_present apply_update_def)
  ultimately show "\<exists>d'. update_one s q [(''$pull'', c)] = (AList.update i d' s, Inr 1)
              \<and> map fst d' = map fst d
              \<and> (\<forall>f. map_of d' f =
                   (case map_of c f of
                     None \<Rightarrow> map_of d f
                   | Some v \<Rightarrow>
                       (case map_of d f of
                          None \<Rightarrow> None
                        | Some x \<Rightarrow> Some (PList (py_remove v (stored_sequence (Some x)))))))"
    by (intro exI [where x = "fst (pull_all d c)"]) simp
next
  assume "list_all is_string xs"
  then show "py_remove v xs = remove1 v xs" by (rule py_remove_strings)
qed

theorem update_one_priority_witness:
  "map_of [(''$pull'', [(''participants'', PStr ''michael@mergington.edu'')]), (''$push'', [(''participants'', PStr ''x@y.edu'')]), (''$set'', [(''max_participants'', PInt 13)])] ''$set'' = Some [(''max_participants'', PInt 13)]
   \<and> update_one [(KStr ''Chess Club'',
        [(''_id'', PStr ''Chess Club''),
         (''participants'', PList [PStr ''michael@mergington.edu''])])] [(''_id'', PStr ''Chess Club'')]
        [(''$pull'', [(''participants'', PStr ''michael@mergington.edu'')]), (''$push'', [(''participants'', PStr ''x@y.edu'')]), (''$set'', [(''max_participants'', PInt 13)])]
     = update_one [(KStr ''Chess Club'',
        [(''_id'', PStr ''Chess Club''),
         (''participants'', PList [PStr ''michael@mergington.edu''])])] [(''_id'', PStr ''Chess Club'')]
        [(''$set'', [(''max_participants'', PInt 13)])]
   \<and> map_of [(''$pull'', [(''participants'', PStr ''michael@mergington.edu'')]), (''$push'', [(''participants'', PStr ''x@y.edu'')])] ''$set'' = None
   \<and> map_of [(''$pull'', [(''participants'', PStr ''michael@mergington.edu'')]), (''$push'', [(''participants'', PStr ''x@y.edu'')])] ''$push'' = Some [(''participants'', PStr ''x@y.edu'')]
   \<and> update_one [(KStr ''Chess Club'',
        [(''_id'', PStr ''Chess Club''),
         (''participants'', PList [PStr ''michael@mergington.edu''])])] [(''_id'', PStr ''Chess Club'')]
        [(''$pull'', [(''participants'', PStr ''michael@mergington.edu'')]), (''$push'', [(''participants'', PStr ''x@y.edu'')])]
     = update_one [(KStr ''Chess Club'',
        [(''_id'', PStr ''Chess Club''),
         (''participants'', PList [PStr ''michael@mergington.edu''])])] [(''_id'', PStr ''Chess Club'')]
        [(''$push'', [(''participants'', PStr ''x@y.edu'')])]
   \<and> map_of [(''$inc'', [(''max_participants'', PInt 1)]), (''$pull'', [(''participants'', PStr ''michael@mergington.edu'')])] ''$set'' = None
   \<and> map_of [(''$inc'', [(''max_participants'', PInt 1)]), (''$pull'', [(''participants'', PStr ''michael@mergington.edu'')])] ''$push'' = None
   \<and> map_of [(''$inc'', [(''max_participants'', PInt 1)]), (''$pull'', [(''participants'', PStr ''michael@mergington.edu'')])] ''$pull'' = Some [(''participants'', PStr ''michael@mergington.edu'')]
   \<and> update_one [(KStr ''Chess Club'',
        [(''_id'', PStr ''Chess Club''),
         (''participants'', PList [PStr ''michael@mergington.edu''])])] [(''_id'', PStr ''Chess Club'')]
        [(''$inc'', [(''max_participants'', PInt 1)]), (''$pull'', [(''participants'', PStr ''michael@mergington.edu'')])]
     = update_one [(KStr ''Chess Club'',
        [(''_id'', PStr ''Chess Club''),
         (''participants'', PList [PStr ''michael@mergington.edu''])])] [(''_id'', PStr ''Chess Club'')]
        [(''$pull'', [(''participants'', PStr ''michael@mergington.edu'')])]
   \<and> map_of [(''$inc'', [(''max_participants'', PInt 1)])] ''$set'' = None
   \<and> map_of [(''$inc'', [(''max_participants'', PInt 1)])] ''$push'' = None
   \<and> map_of [(''$inc'', [(''max_participants'', PInt 1)])] ''$pull'' = None
   \<and> query_id [(''_id'', PStr ''Chess Club'')] = key_val (KStr ''Chess Club'')
   \<and> map_of [(KStr ''Chess Club'',
        [(''_id'', PStr ''Chess Club''),
         (''participants'', PList [PStr ''michael@mergington.edu''])])] (KStr ''Chess Club'')
       = Some [(''_id'', PStr ''Chess Club''),
         (''participants'', PList [PStr ''michael@mergington.edu''])]
   \<and> update_one [(KStr ''Chess Club'',
        [(''_id'', PStr ''Chess Club''),
         (''participants'', PList [PStr ''michael@mergington.edu''])])] [(''_id'', PStr ''Chess Club'')]
        [(''$inc'', [(''max_participants'', PInt 1)])]
     = ([(KStr ''Chess Club'',
        [(''_id'', PStr ''Chess Club''),
         (''participants'', PList [PStr ''michael@mergington.edu''])])], Inr 1)
   \<and> update_one [(KStr ''Chess Club'',
        [(''_id'', PStr ''Chess Club''),
         (''participants'', PList [PStr ''michael@mergington.edu''])])] [(''_id'', PStr ''Chess Club'')]
        [(''$set'', [(''max_participants'', PInt 13)])]
     = ([(KStr ''Chess Club'',
          [(''_id'', PStr ''Chess Club''),
           (''participants'', PList [PStr ''michael@mergington.edu'']),
           (''max_participants'', PInt 13)])], Inr 1)
   \<and> distinct (map fst [(''participants'', PStr ''x@y.edu'')])
   \<and> list_all (list_or_missing_field [(''_id'', PStr ''Chess Club''),
         (''participants'', PList [PStr ''michael@mergington.edu''])]) [(''participants'', PStr ''x@y.edu'')]
   \<and> (\<exists>d'. update_one [(KStr ''Chess Club'',
        [(''_id'', PStr ''Chess Club''),
         (''participants'', PList [PStr ''michael@mergington.edu''])])] [(''_id'', PStr ''Chess Club'')]
              [(''$push'', [(''participants'', PStr ''x@y.edu'')])]
            = (AList.update (KStr ''Chess Club'') d' [(KStr ''Chess Club'',
        [(''_id'', PStr ''Chess Club''),
         (''participants'', PList [PStr ''michael@mergington.edu''])])], Inr 1)
          \<and> map_of d' ''participants''
              = Some (PList [PStr ''michael@mergington.edu'', PStr ''x@y.edu''])
          \<and> map_of d' ''_id'' = Some (PStr ''Chess Club''))
   \<and> distinct (map fst [(''participants'', PStr ''michael@mergington.edu'')])
   \<and> list_all (list_or_missing_field [(''_id'', PStr ''Chess Club''),
         (''participants'', PList [PStr ''michael@mergington.edu''])]) [(''participants'', PStr ''michael@mergington.edu'')]
   \<and> (\<exists>d'. update_one [(KStr ''Chess Club'',
        [(''_id'', PStr ''Chess Club''),
         (''participants'', PList [PStr ''michael@mergington.edu''])])] [(''_id'', PStr ''Chess Club'')]
              [(''$pull'', [(''participants'', PStr ''michael@mergington.edu'')])]
            = (AList.update (KStr ''Chess Club'') d' [(KStr ''Chess Club'',
        [(''_id'', PStr ''Chess Club''),
         (''participants'', PList [PStr ''michael@mergington.edu''])])], Inr 1)
          \<and> map fst d' = [''_id'', ''participants'']
          \<and> map_of d' ''participants'' = Some (PList [])
          \<and> map_of d' ''_id'' = Some (PStr ''Chess Club''))
   \<and> list_all is_string [PStr ''michael@mergington.edu'']
   \<and> py_remove (PStr ''michael@mergington.edu'') [PStr ''michael@mergington.edu''] = []"
proof -
  let ?s = "[(KStr ''Chess Club'',
        [(''_id'', PStr ''Chess Club''),
         (''participants'', PList [PStr ''michael@mergington.edu''])])]"
  let ?d = "[(''_id'', PStr ''Chess Club''),
         (''participants'', PList [PStr ''michael@mergington.edu''])]"
  let ?q = "[(''_id'', PStr ''Chess Club'')]"
  note first = update_one_priority [where u = "[(''$pull'', [(''participants'', PStr ''michael@mergington.edu'')]), (''$push'', [(''participants'', PStr ''x@y.edu'')]), (''$set'', [(''max_participants'', PInt 13)])]"
      and a = "[(''max_participants'', PInt 13)]" and s = ?s and q = ?q and i = "KStr ''Chess Club''" and d = ?d
      and b = "[(''participants'', PStr ''x@y.edu'')]" and c = "[(''participants'', PStr ''michael@mergington.edu'')]"
      and xs = "[PStr ''michael@mergington.edu'']" and v = "PStr ''michael@mergington.edu''"]
  note second = update_one_priority [where u = "[(''$pull'', [(''participants'', PStr ''michael@mergington.edu'')]), (''$push'', [(''participants'', PStr ''x@y.edu'')])]"
      and b = "[(''participants'', PStr ''x@y.edu'')]" and s = ?s and q = ?q]
  note third = update_one_priority [where u = "[(''$inc'', [(''max_participants'', PInt 1)]), (''$pull'', [(''participants'', PStr ''michael@mergington.edu'')])]"
      and c = "[(''participants'', PStr ''michael@mergington.edu'')]" and s = ?s and q = ?q]
  note fourth = update_one_priority [where u = "[(''$inc'', [(''max_participants'', PInt 1)])]"
      and s = ?s and q = ?q and i = "KStr ''Chess Club''" and d = ?d]
  have hyps: "query_id ?q = key_val (KStr ''Chess Club'') \<and> map_of ?s (KStr ''Chess Club'') = Some ?d"
    by (simp add: query_id_def)
  from first hyps have set_done: "update_one ?s ?q [(''$set'', [(''max_participants'', PInt 13)])]
      = (AList.update (KStr ''Chess Club'') (dict_update ?d [(''max_participants'', PInt 13)]) ?s, Inr 1)"
    by blast
  from first hyps obtain d1 where d1: "update_one ?s ?q [(''$push'', [(''participants'', PStr ''x@y.edu'')])]
        = (AList.update (KStr ''Chess Club'') d1 ?s, Inr 1)"
      "\<And>f. map_of d1 f =
         (case map_of [(''participants'', PStr ''x@y.edu'')] f of
            None \<Rightarrow> map_of ?d f
          | Some v \<Rightarrow> Some (PList (stored_sequence (map_of ?d f) @ [v])))"
    by auto
  from first hyps obtain d2 where d2: "update_one ?s ?q [(''$pull'', [(''participants'', PStr ''michael@mergington.edu'')])]
        = (AList.update (KStr ''Chess Club'') d2 ?s, Inr 1)"
      "map fst d2 = map fst ?d"
      "\<And>f. map_of d2 f =
         (case map_of [(''participants'', PStr ''michael@mergington.edu'')] f of
            None \<Rightarrow> map_of ?d f
          | Some v \<Rightarrow>
              (case map_of ?d f of
                 None \<Rightarrow> None
               | Some x \<Rightarrow> Some (PList (py_remove v (stored_sequence (Some x))))))"
    by auto
  from first have removed: "py_remove (PStr ''michael@mergington.edu'') [PStr ''michael@mergington.edu''] = []"
    by simp
  have pushed: "\<exists>d'. update_one ?s ?q [(''$push'', [(''participants'', PStr ''x@y.edu'')])]
            = (AList.update (KStr ''Chess Club'') d' ?s, Inr 1)
          \<and> map_of d' ''participants''
              = Some (PList [PStr ''michael@mergington.edu'', PStr ''x@y.edu''])
          \<and> map_of d' ''_id'' = Some (PStr ''Chess Club'')"
    using d1(1) d1(2) [of "''participants''"] d1(2) [of "''_id''"] by simp
  have pulled: "\<exists>d'. update_one ?s ?q [(''$pull'', [(''participants'', PStr ''michael@mergington.edu'')])]
            = (AList.update (KStr ''Chess Club'') d' ?s, Inr 1)
          \<and> map fst d' = [''_id'', ''participants'']
          \<and> map_of d' ''participants'' = Some (PList [])
          \<and> map_of d' ''_id'' = Some (PStr ''Chess Club'')"
    using d2(1) d2(2) d2(3) [of "''participants''"] d2(3) [of "''_id''"] removed by simp
  from set_done have set_shown: "update_one ?s ?q [(''$set'', [(''max_participants'', PInt 13)])]
     = ([(KStr ''Chess Club'',
          [(''_id'', PStr ''Chess Club''),
           (''participants'', PList [PStr ''michael@mergington.edu'']),
           (''max_participants'', PInt 13)])], Inr 1)"
    by (simp add: dict_update_def)
  from first second third fourth hyps set_shown pushed pulled removed show ?thesis
    by simp
qed

text \<open>
  C2, as the code has it. For a document stored under an identity whose
  \<^verbatim>\<open>participants\<close> is a list that does not hold the value yet, a \<^verbatim>\<open>$push\<close> of the
  value to \<^verbatim>\<open>participants\<close> followed by a \<^verbatim>\<open>$pull\<close> of it gives back the storage of
  before, so the participants in their order; each call returns a \<^verbatim>\<open>modified_count\<close>
  of 1.
\<close>

theorem push_then_pull_restores:
  "query_id q = key_val i \<and> map_of s i = Some d
   \<and> map_of d ''participants'' = Some (PList ps)
   \<and> well_formed v \<and> \<not> list_ex (\<lambda>x. py_eq x v) ps \<longrightarrow>
     update_one s q [(''$push'', [(''participants'', v)])]
       = (AList.update i (AList.update ''participants'' (PList (ps @ [v])) d) s, Inr 1)
     \<and> update_one (AList.update i (AList.update ''participants'' (PList (ps @ [v])) d) s) q
         [(''$pull'', [(''participants'', v)])]
       = (s, Inr 1)"
proof (intro impI conjI)
  assume a: "query_id q = key_val i \<and> map_of s i = Some d
   \<and> map_of d ''participants'' = Some (PList ps)
   \<and> well_formed v \<and> \<not> list_ex (\<lambda>x. py_eq x v) ps"
  let ?d1 = "AList.update ''participants'' (PList (ps @ [v])) d"
  from a have isin: "''participants'' \<in> set (map fst d)"
    by (metis map_of_eq_None_iff option.distinct(1) set_map)
  with a have push: "apply_update d [(''$push'', [(''participants'', v)])] = (?d1, None)"
    by (simp add: apply_update_def)
  with a show "update_one s q [(''$push'', [(''participants'', v)])] = (AList.update i ?d1 s, Inr 1)"
    by (simp add: update_one_present)
  from a have "py_remove v (ps @ [v]) = ps"
    by (simp add: py_remove_appended py_eq_refl)
  moreover from a have "AList.update ''participants'' (PList ps) d = d"
    by (simp add: update_triv)
  ultimately have pull: "apply_update ?d1 [(''$pull'', [(''participants'', v)])] = (d, None)"
    by (simp add: apply_update_def update_conv')
  have stored: "map_of (AList.update i ?d1 s) i = Some ?d1"
    by (simp add: update_conv')
  from a have "AList.update i d s = s"
    by (simp add: update_triv)
  with a pull show "update_one (AList.update i ?d1 s) q [(''$pull'', [(''participants'', v)])] = (s, Inr 1)"
    by (simp add: update_one_present [OF _ stored])
qed

theorem push_then_pull_restores_witness:
  "query_id [(''_id'', PStr ''Chess Club'')] = key_val (KStr ''Chess Club'')
   \<and> map_of
      [(KStr ''Chess Club'',
        [(''_id'', PStr ''Chess Club''),
         (''participants'', PList [PStr ''michael@mergington.edu'', PStr ''daniel@mergington.edu''])])] (KStr ''Chess Club'')
      = Some [(''_id'', PStr ''Chess Club''),
         (''participants'', PList [PStr ''michael@mergington.edu'', PStr ''daniel@mergington.edu''])]
   \<and> well_formed (PStr ''x@y.edu'')
   \<and> \<not> list_ex (\<lambda>x. py_eq x (PStr ''x@y.edu''))
         [PStr ''michael@mergington.edu'', PStr ''daniel@mergington.edu'']
   \<and> update_one
      [(KStr ''Chess Club'',
        [(''_id'', PStr ''Chess Club''),
         (''participants'', PList [PStr ''michael@mergington.edu'', PStr ''daniel@mergington.edu''])])]
      [(''_id'', PStr ''Chess Club'')]
      [(''$push'', [(''participants'', PStr ''x@y.edu'')])]
     = ([(KStr ''Chess Club'',
        [(''_id'', PStr ''Chess Club''),
         (''participants'', PList [PStr ''michael@mergington.edu'', PStr ''daniel@mergington.edu'', PStr ''x@y.edu''])])], Inr 1)
   \<and> update_one
      [(KStr ''Chess Club'',
        [(''_id'', PStr ''Chess Club''),
         (''participants'', PList [PStr ''michael@mergington.edu'', PStr ''daniel@mergington.edu'', PStr ''x@y.edu''])])]
      [(''_id'', PStr ''Chess Club'')]
      [(''$pull'', [(''participants'', PStr ''x@y.edu'')])]
     = ([(KStr ''Chess Club'',
        [(''_id'', PStr ''Chess Club''),
         (''participants'', PList [PStr ''michael@mergington.edu'', PStr ''daniel@mergington.edu''])])], Inr 1)"
  using push_then_pull_restores [of "[(''_id'', PStr ''Chess Club'')]" "KStr ''Chess Club''"
      "[(KStr ''Chess Club'',
        [(''_id'', PStr ''Chess Club''),
         (''participants'', PList [PStr ''michael@mergington.edu'', PStr ''daniel@mergington.edu''])])]"
      "[(''_id'', PStr ''Chess Club''),
         (''participants'', PList [PStr ''michael@mergington.edu'', PStr ''daniel@mergington.edu''])]"
      "[PStr ''michael@mergington.edu'', PStr ''daniel@mergington.edu'']" "PStr ''x@y.edu''"]
  by (simp add: query_id_def)

text \<open>
  C2 as stated fails when the value is among the participants already: \<^verbatim>\<open>$pull\<close> takes
  out its first occurrence, not the one pushed, and the sequence comes back in another
  order.
\<close>

theorem push_then_pull_counterexample:
  "update_one
      [(KStr ''Chess Club'',
        [(''_id'', PStr ''Chess Club''),
         (''participants'', PList [PStr ''x@y.edu'', PStr ''michael@mergington.edu''])])]
      [(''_id'', PStr ''Chess Club'')]
      [(''$push'', [(''participants'', PStr ''x@y.edu'')])]
     = ([(KStr ''Chess Club'',
        [(''_id'', PStr ''Chess Club''),
         (''participants'', PList [PStr ''x@y.edu'', PStr ''michael@mergington.edu'', PStr ''x@y.edu''])])], Inr 1)
   \<and> update_one
      [(KStr ''Chess Club'',
        [(''_id'', PStr ''Chess Club''),
         (''participants'', PList [PStr ''x@y.edu'', PStr ''michael@mergington.edu'', PStr ''x@y.edu''])])]
      [(''_id'', PStr ''Chess Club'')]
      [(''$pull'', [(''participants'', PStr ''x@y.edu'')])]
     = ([(KStr ''Chess Club'',
        [(''_id'', PStr ''Chess Club''),
         (''participants'', PList [PStr ''michael@mergington.edu'', PStr ''x@y.edu''])])], Inr 1)
   \<and> [(KStr ''Chess Club'',
        [(''_id'', PStr ''Chess Club''),
         (''participants'', PList [PStr ''michael@mergington.edu'', PStr ''x@y.edu''])])]
     \<noteq> [(KStr ''Chess Club'',
        [(''_id'', PStr ''Chess Club''),
         (''participants'', PList [PStr ''x@y.edu'', PStr ''michael@mergington.edu''])])]"
  by (simp add: update_one_def query_id_def apply_update_def)

section \<open>Inserts\<close>

text \<open>
  C8. \<^verbatim>\<open>insert_one\<close> of a document whose identity is in the collection raises nothing
  and overwrites: the number of documents and the keys of the storage stay as they were,
  and the document found under the identity afterwards is the one inserted.
\<close>

theorem insert_one_overwrites:
  "map_of document ''_id'' = Some (key_val i) \<and> map_of s i = Some old \<longrightarrow>
     insert_one s document = Inr (AList.update i document s)
     \<and> count_documents (AList.update i document s) = count_documents s
     \<and> map fst (AList.update i document s) = map fst s
     \<and> find_one (AList.update i document s) (Some [(''_id'', key_val i)]) = Inr (Some document)"
proof (intro impI conjI)
  assume a: "map_of document ''_id'' = Some (key_val i) \<and> map_of s i = Some old"
  then have isin: "i \<in> set (map fst s)"
    by (metis map_of_eq_None_iff option.distinct(1) set_map)
  from a show "insert_one s document = Inr (AList.update i document s)"
    by (simp add: insert_one_def hash_key_val)
  from isin show keys: "map fst (AList.update i document s) = map fst s"
    by (simp add: update_keys)
  have "length (map fst (AList.update i document s)) = length (map fst s)"
    by (simp only: keys)
  then show "count_documents (AList.update i document s) = count_documents s"
    by (simp add: count_documents_def)
  show "find_one (AList.update i document s) (Some [(''_id'', key_val i)]) = Inr (Some document)"
    by (simp add: find_one_def falsy_def query_id_def hash_key_val update_conv')
qed

theorem insert_one_overwrites_witness:
  "map_of [(''_id'', PStr ''mchen''), (''role'', PStr ''admin'')] ''_id'' = Some (key_val (KStr ''mchen''))
   \<and> map_of [(KStr ''mchen'', [(''_id'', PStr ''mchen''), (''role'', PStr ''teacher'')])] (KStr ''mchen'')
       = Some [(''_id'', PStr ''mchen''), (''role'', PStr ''teacher'')]
   \<and> insert_one [(KStr ''mchen'', [(''_id'', PStr ''mchen''), (''role'', PStr ''teacher'')])]
        [(''_id'', PStr ''mchen''), (''role'', PStr ''admin'')]
       = Inr [(KStr ''mchen'', [(''_id'', PStr ''mchen''), (''role'', PStr ''admin'')])]
   \<and> count_documents [(KStr ''mchen'', [(''_id'', PStr ''mchen''), (''role'', PStr ''admin'')])]
       = count_documents [(KStr ''mchen'', [(''_id'', PStr ''mchen''), (''role'', PStr ''teacher'')])]
   \<and> find_one [(KStr ''mchen'', [(''_id'', PStr ''mchen''), (''role'', PStr ''admin'')])]
        (Some [(''_id'', PStr ''mchen'')])
       = Inr (Some [(''_id'', PStr ''mchen''), (''role'', PStr ''admin'')])"
  using insert_one_overwrites [of "[(''_id'', PStr ''mchen''), (''role'', PStr ''admin'')]"
      "KStr ''mchen''"
      "[(KStr ''mchen'', [(''_id'', PStr ''mchen''), (''role'', PStr ''teacher'')])]"
      "[(''_id'', PStr ''mchen''), (''role'', PStr ''teacher'')]"]
  by simp

section \<open>Distinct days\<close>

lemma insert_activities_initial: "insert_activities [] initial_activities
   = Inr (map (\<lambda>(name, details). (KStr name, (''_id'', PStr name) # details)) initial_activities)"
  by (simp add: initial_activities_def insert_one_def dict_update_def)

lemma aggregate_seeded: "aggregate (map (\<lambda>(name, details). (KStr name, (''_id'', PStr name) # details)) initial_activities)
  = Inr (map (\<lambda>day. [(''_id'', PStr day)])
          [''Friday'', ''Monday'', ''Saturday'', ''Sunday'', ''Thursday'', ''Tuesday'',
           ''Wednesday''])"
  by (simp add: initial_activities_def aggregate_def schedule_field_def py_sorted_def)

lemma key_val_inj: "key_val a = key_val b \<Longrightarrow> a = b"
  by (cases a; cases b) simp_all

lemma set_update_strings:
  "list_all is_string xs \<Longrightarrow>
   \<exists>days'. set_update days xs = Inr days'
     \<and> key_val ` set days' = key_val ` set days \<union> set xs
     \<and> (distinct days \<longrightarrow> distinct days')
     \<and> (list_all is_str days \<longrightarrow> list_all is_str days')"
proof (induction xs arbitrary: days)
  case Nil
  then show ?case by simp
next
  case (Cons x xs)
  then obtain name where x: "x = PStr name" by (cases x) simp_all
  from Cons.prems have "list_all is_string xs" by simp
  from Cons.IH [OF this, of "List.insert (KStr name) days"]
  obtain days' where "set_update (List.insert (KStr name) days) xs = Inr days'"
    and "key_val ` set days' = key_val ` set (List.insert (KStr name) days) \<union> set xs"
    and "distinct (List.insert (KStr name) days) \<longrightarrow> distinct days'"
    and "list_all is_str (List.insert (KStr name) days) \<longrightarrow> list_all is_str days'"
    by blast
  then show ?case by (auto simp: x list_all_iff)
qed

lemma aggregate_loop_shaped:
  "list_all schedule_shaped docs \<Longrightarrow>
   \<exists>days'. aggregate_loop days docs = Inr days'
     \<and> key_val ` set days' = key_val ` set days \<union> (\<Union>d\<in>set docs. set (days_of d))
     \<and> (distinct days \<longrightarrow> distinct days')
     \<and> (list_all is_str days \<longrightarrow> list_all is_str days')"
proof (induction docs arbitrary: days)
  case Nil
  then show ?case by simp
next
  case (Cons d docs)
  then have d: "schedule_shaped d" and rest: "list_all schedule_shaped docs" by simp_all
  from set_update_strings [OF shaped_days(2) [OF d], of days]
  obtain days1 where 1: "set_update days (days_of d) = Inr days1"
    "key_val ` set days1 = key_val ` set days \<union> set (days_of d)"
    "distinct days \<longrightarrow> distinct days1"
    "list_all is_str days \<longrightarrow> list_all is_str days1"
    by blast
  from Cons.IH [OF rest, of days1]
  obtain days' where 2: "aggregate_loop days1 docs = Inr days'"
    "key_val ` set days' = key_val ` set days1 \<union> (\<Union>d\<in>set docs. set (days_of d))"
    "distinct days1 \<longrightarrow> distinct days'"
    "list_all is_str days1 \<longrightarrow> list_all is_str days'"
    by blast
  have "aggregate_loop days (d # docs) = Inr days'"
    by (simp add: shaped_days(1) [OF d] 1 2)
  moreover have "key_val ` set days' = key_val ` set days \<union> (\<Union>d\<in>set (d # docs). set (days_of d))"
    using 1(2) 2(2) by auto
  ultimately show ?case using 1 2 by blast
qed

lemma is_str_key: "is_str k \<Longrightarrow> PStr (str_of k) = key_val k"
  by (cases k) simp_all

lemma str_of_inj: "is_str a \<Longrightarrow> is_str b \<Longrightarrow> str_of a = str_of b \<Longrightarrow> a = b"
  by (cases a; cases b) simp_all

lemma distinct_names: "list_all is_str days \<Longrightarrow> distinct days \<Longrightarrow> distinct (map str_of days)"
proof (induction days)
  case Nil
  then show ?case by simp
next
  case (Cons k days)
  have "str_of k \<notin> str_of ` set days"
  proof
    assume "str_of k \<in> str_of ` set days"
    then obtain k' where k': "k' \<in> set days" "str_of k = str_of k'" by blast
    with Cons.prems have "is_str k" "is_str k'" by (simp_all add: list_all_iff)
    with k' have "k = k'" by (simp add: str_of_inj)
    with k' Cons.prems show False by simp
  qed
  with Cons show ?case by simp
qed

lemma names_set: "list_all is_str days \<Longrightarrow> PStr ` set (map str_of days) = key_val ` set days"
  by (induction days) (simp_all add: is_str_key)

text \<open>
  C5. On a collection of documents of the data model, \<^verbatim>\<open>aggregate\<close> returns one record
  per day, the record holding the day as a string under the single key \<^verbatim>\<open>_id\<close>; the
  days are those of the \<^verbatim>\<open>schedule_details.days\<close> of all documents together, each once,
  in ascending lexicographic order. On the collection seeded from \<^verbatim>\<open>initial_activities\<close>
  these are the seven names of the weekdays.
\<close>

theorem aggregate_distinct_days:
  "(list_all (\<lambda>(key, d). schedule_shaped d) s \<longrightarrow>
      (\<exists>ds. aggregate s = Inr (map (\<lambda>day. [(''_id'', PStr day)]) ds)
         \<and> sorted ds \<and> distinct ds
         \<and> PStr ` set ds = (\<Union>(key, d)\<in>set s. set (days_of d))))
   \<and> (\<exists>a. insert_activities [] initial_activities = Inr a
         \<and> aggregate a = Inr (map (\<lambda>day. [(''_id'', PStr day)])
             [''Friday'', ''Monday'', ''Saturday'', ''Sunday'', ''Thursday'', ''Tuesday'',
              ''Wednesday'']))"
proof (intro conjI impI)
  assume "list_all (\<lambda>(key, d). schedule_shaped d) s"
  then have "list_all schedule_shaped (map snd s)"
    by (simp add: list_all_iff case_prod_unfold)
  from aggregate_loop_shaped [OF this, of "[]"]
  obtain days where days: "aggregate_loop [] (map snd s) = Inr days"
    "key_val ` set days = (\<Union>d\<in>set (map snd s). set (days_of d))"
    "distinct days" "list_all is_str days"
    by auto
  let ?ds = "sort (map str_of days)"
  have "aggregate s = Inr (map (\<lambda>day. [(''_id'', PStr day)]) ?ds)"
    using days by (simp add: aggregate_def py_sorted_def comp_def)
  moreover have "sorted ?ds" by simp
  moreover have "distinct ?ds" using days by (simp add: distinct_names)
  moreover have "PStr ` set ?ds = (\<Union>(key, d)\<in>set s. set (days_of d))"
    using days names_set [of days] by (auto simp: case_prod_unfold)
  ultimately show "\<exists>ds. aggregate s = Inr (map (\<lambda>day. [(''_id'', PStr day)]) ds)
         \<and> sorted ds \<and> distinct ds
         \<and> PStr ` set ds = (\<Union>(key, d)\<in>set s. set (days_of d))"
    by blast
next
  show "\<exists>a. insert_activities [] initial_activities = Inr a
         \<and> aggregate a = Inr (map (\<lambda>day. [(''_id'', PStr day)])
             [''Friday'', ''Monday'', ''Saturday'', ''Sunday'', ''Thursday'', ''Tuesday'',
              ''Wednesday''])"
    using insert_activities_initial aggregate_seeded by blast
qed

theorem aggregate_distinct_days_witness:
  "list_all (\<lambda>(key, d). schedule_shaped d)
        [(KStr ''Chess Club'',
          [(''schedule_details'', PDict [(''days'', PList [PStr ''Monday'', PStr ''Friday''])])]),
         (KStr ''Drama Club'',
          [(''schedule_details'', PDict [(''days'', PList [PStr ''Monday'', PStr ''Wednesday''])])])]
   \<and> (\<exists>ds. aggregate
        [(KStr ''Chess Club'',
          [(''schedule_details'', PDict [(''days'', PList [PStr ''Monday'', PStr ''Friday''])])]),
         (KStr ''Drama Club'',
          [(''schedule_details'', PDict [(''days'', PList [PStr ''Monday'', PStr ''Wednesday''])])])]
         = Inr (map (\<lambda>day. [(''_id'', PStr day)]) ds)
         \<and> sorted ds \<and> distinct ds
         \<and> PStr ` set ds = {PStr ''Monday'', PStr ''Friday'', PStr ''Wednesday''})"
proof -
  let ?s = "[(KStr ''Chess Club'',
          [(''schedule_details'', PDict [(''days'', PList [PStr ''Monday'', PStr ''Friday''])])]),
         (KStr ''Drama Club'',
          [(''schedule_details'', PDict [(''days'', PList [PStr ''Monday'', PStr ''Wednesday''])])])]"
  have shaped: "list_all (\<lambda>(key, d). schedule_shaped d) ?s"
    by (simp add: schedule_shaped_def)
  have days: "(\<Union>(key, d)\<in>set ?s. set (days_of d))
      = {PStr ''Monday'', PStr ''Friday'', PStr ''Wednesday''}"
    by (auto simp: days_of_def details_of_def)
  have "\<exists>ds. aggregate ?s = Inr (map (\<lambda>day. [(''_id'', PStr day)]) ds)
         \<and> sorted ds \<and> distinct ds
         \<and> PStr ` set ds = (\<Union>(key, d)\<in>set ?s. set (days_of d))"
    using shaped by (rule aggregate_distinct_days [THEN conjunct1, THEN mp])
  then have "\<exists>ds. aggregate ?s = Inr (map (\<lambda>day. [(''_id'', PStr day)]) ds)
         \<and> sorted ds \<and> distinct ds
         \<and> PStr ` set ds = {PStr ''Monday'', PStr ''Friday'', PStr ''Wednesday''}"
    by (simp only: days)
  with shaped show ?thesis by (rule conjI)
qed

section \<open>Seeding\<close>

lemma insert_teachers_initial: "insert_teachers [] (initial_teachers ph)
   = Inr (map (\<lambda>teacher. (KStr (str_of (case map_of teacher ''username'' of Some (PStr u) \<Rightarrow> KStr u | _ \<Rightarrow> KNone)),
                 (''_id'', the (map_of teacher ''username'')) # teacher)) (initial_teachers ph))"
  by (simp add: initial_teachers_def insert_one_def dict_update_def)

lemma count_zero: "(count_documents s = 0) = (s = [])"
  by (simp add: count_documents_def)

text \<open>
  C6. \<^verbatim>\<open>init_database\<close> raises nothing and seeds each of the two collections from its
  catalog only when the collection has no document, leaving it as it is otherwise. After
  the call neither collection is empty, so a second call right after inserts nothing: it
  returns the state it was given, and the number of documents of both collections is
  the same after it.
\<close>

theorem init_database_idempotent:
  "\<exists>a t. insert_activities [] initial_activities = Inr a
     \<and> insert_teachers [] (initial_teachers ph) = Inr t
     \<and> (let db1 = \<lparr>activities_collection =
                      (if count_documents (activities_collection db) = 0 then a
                       else activities_collection db),
                    teachers_collection =
                      (if count_documents (teachers_collection db) = 0 then t
                       else teachers_collection db)\<rparr>
        in init_database ph db = Inr db1
           \<and> init_database ph db1 = Inr db1
           \<and> count_documents (activities_collection db1) \<noteq> 0
           \<and> count_documents (teachers_collection db1) \<noteq> 0)"
proof -
  obtain a where a: "insert_activities [] initial_activities = Inr a" "a \<noteq> []"
    using insert_activities_initial by (simp add: initial_activities_def)
  obtain t where t: "insert_teachers [] (initial_teachers ph) = Inr t" "t \<noteq> []"
    using insert_teachers_initial [of ph] by (simp add: initial_teachers_def)
  have "let db1 = \<lparr>activities_collection =
                      (if count_documents (activities_collection db) = 0 then a
                       else activities_collection db),
                    teachers_collection =
                      (if count_documents (teachers_collection db) = 0 then t
                       else teachers_collection db)\<rparr>
        in init_database ph db = Inr db1
           \<and> init_database ph db1 = Inr db1
           \<and> count_documents (activities_collection db1) \<noteq> 0
           \<and> count_documents (teachers_collection db1) \<noteq> 0"
    using a t by (simp add: init_database_def count_zero Let_def)
  with a t show ?thesis by blast
qed

section \<open>Reading one document\<close>

text \<open>
  C9. On every collection, also one that holds documents, \<^verbatim>\<open>find_one\<close> with an empty query
  or with no query returns no document; with a query that carries \<^verbatim>\<open>_id\<close> it returns the
  document stored under that identity, and no document when there is none.
\<close>

theorem find_one_by_identity:
  "find_one s None = Inr None
   \<and> find_one s (Some []) = Inr None
   \<and> (map_of q ''_id'' = Some (key_val i) \<longrightarrow> find_one s (Some q) = Inr (map_of s i))"
  by (cases i) (auto simp: find_one_def falsy_def query_id_def)

theorem find_one_by_identity_witness:
  "find_one [(KStr ''a'', [(''_id'', PStr ''a'')])] None = Inr None
   \<and> find_one [(KStr ''a'', [(''_id'', PStr ''a'')])] (Some []) = Inr None
   \<and> map_of [(''_id'', PStr ''a'')] ''_id'' = Some (key_val (KStr ''a''))
   \<and> find_one [(KStr ''a'', [(''_id'', PStr ''a'')])] (Some [(''_id'', PStr ''a'')])
       = Inr (Some [(''_id'', PStr ''a'')])"
  using find_one_by_identity [of "[(KStr ''a'', [(''_id'', PStr ''a'')])]"
      "[(''_id'', PStr ''a'')]" "KStr ''a''"]
  by simp

end
